theory Spec2Isabelle
  imports Complex_Main
begin

section \<open>Strava local heatmap: a shallow embedding\<close>

text \<open>
  The program is Python over numpy arrays. The embedding uses
  \<^item> \<open>int\<close> for Python integers, \<open>string\<close> for Python strings;
  \<^item> \<open>real\<close> for a finite float64, with exact arithmetic (rounding is not
    modelled), and \<open>npfloat\<close> where the code can produce \<open>nan\<close> or an infinity;
  \<^item> a list of rows for a two-dimensional array;
  \<^item> \<open>py_error + 'a\<close> for a computation that may raise.
\<close>

datatype py_error = ValueError | FileNotFoundError | AttributeError

datatype npfloat = Fin real | PInf | NInf | NaN

subsection \<open>Month ranges (strava\_local\_heatmap.py)\<close>

text \<open>\<open>str.split(sep)\<close> for a one-character separator: never returns the empty list.\<close>

fun split_on :: "char \<Rightarrow> string \<Rightarrow> string list" where
  "split_on c [] = [[]]"
| "split_on c (x # xs) =
     (if x = c then [] # split_on c xs
      else (case split_on c xs of
              w # ws \<Rightarrow> (x # w) # ws
            | [] \<Rightarrow> [[x]]))"

text \<open>
  \<open>int(s)\<close> on a string, for ASCII input: surrounding whitespace is stripped, one sign
  is allowed, then decimal digits, single underscores allowed between digits. Anything
  else raises \<open>ValueError\<close>.
\<close>

definition is_space :: "char \<Rightarrow> bool" where
  "is_space c \<longleftrightarrow> c \<in> {CHR '' '', CHR 0x09, CHR 0x0A, CHR 0x0B, CHR 0x0C, CHR 0x0D,
                        CHR 0x1C, CHR 0x1D, CHR 0x1E, CHR 0x1F}"

definition strip :: "string \<Rightarrow> string" where
  "strip s = rev (dropWhile is_space (rev (dropWhile is_space s)))"

definition digit_val :: "char \<Rightarrow> int option" where
  "digit_val c =
     (let k = (of_char c :: nat) in if 48 \<le> k \<and> k \<le> 57 then Some (int k - 48) else None)"

fun parse_digits :: "int \<Rightarrow> string \<Rightarrow> int option" where
  "parse_digits acc [] = Some acc"
| "parse_digits acc [c] =
     (case digit_val c of Some v \<Rightarrow> Some (10 * acc + v) | None \<Rightarrow> None)"
| "parse_digits acc (c # d # ds) =
     (if c = CHR ''_'' then
        (case digit_val d of Some v \<Rightarrow> parse_digits (10 * acc + v) ds | None \<Rightarrow> None)
      else
        (case digit_val c of Some v \<Rightarrow> parse_digits (10 * acc + v) (d # ds) | None \<Rightarrow> None))"

definition unsigned_int :: "string \<Rightarrow> py_error + int" where
  "unsigned_int body =
     (case body of
        [] \<Rightarrow> Inl ValueError
      | d # ds \<Rightarrow>
          (case digit_val d of
             None \<Rightarrow> Inl ValueError
           | Some v \<Rightarrow> (case parse_digits v ds of None \<Rightarrow> Inl ValueError | Some n \<Rightarrow> Inr n)))"

definition int_of_str :: "string \<Rightarrow> py_error + int" where
  "int_of_str s =
     (case strip s of
        [] \<Rightarrow> Inl ValueError
      | c # cs \<Rightarrow>
          if c = CHR ''-'' then map_sum id uminus (unsigned_int cs)
          else if c = CHR ''+'' then unsigned_int cs
          else unsigned_int (c # cs))"

definition extract_start_stop_from_month :: "string \<Rightarrow> py_error + int \<times> int" where
  "extract_start_stop_from_month month =
     (let tmp = split_on CHR ''-'' month in
      if length tmp < 2 \<or> hd tmp = [] \<or> last tmp = [] then Inr (1, 13)
      else
        (case int_of_str (hd tmp) of
           Inl e \<Rightarrow> Inl e
         | Inr start0 \<Rightarrow>
             (case int_of_str (last tmp) of
                Inl e \<Rightarrow> Inl e
              | Inr stop0 \<Rightarrow>
                  (let (start1, stop1) = (if start0 > stop0 then (stop0, start0) else (start0, stop0));
                       start2 = (if start1 < 1 then 1 else start1);
                       start3 = (if start2 > 13 then 13 else start2);
                       stop2 = stop1 + 1;
                       stop3 = (if stop2 > 13 then 13 else stop2);
                       stop4 = (if stop3 < 1 then 1 else stop3)
                   in Inr (start3, stop4)))))"

text \<open>\<open>range(start, stop)\<close>.\<close>

definition py_range :: "int \<Rightarrow> int \<Rightarrow> int list" where
  "py_range start stop = [start..stop - 1]"

text \<open>
  The month handling of \<open>main\<close>. With the month \<open>'0'\<close> or a month containing
  \<open>'-'\<close>, \<open>main\<close> loops over \<open>range(start, stop)\<close>; any other month string is
  handed on unchanged for a single render.
\<close>

datatype month_plan = PerMonth "int list" | SinglePeriod string

definition main_months :: "string \<Rightarrow> py_error + month_plan" where
  "main_months month =
     (if month = ''0'' \<or> CHR ''-'' \<in> set month then
        (case (if CHR ''-'' \<in> set month then extract_start_stop_from_month month
               else Inr (1, 13)) of
           Inl e \<Rightarrow> Inl e
         | Inr (start, stop) \<Rightarrow> Inr (PerMonth (py_range start stop)))
      else Inr (SinglePeriod month))"

text \<open>
  The loop body of \<open>main\<close> renders month \<open>i\<close> unless the data read for that month is
  empty (\<open>continue\<close>). Reading the activities is outside this model: \<open>has_data i\<close>
  says that \<open>get_lat_lon_from_df\<close> returned a non-empty array for month \<open>i\<close>.
  \<open>monthly_renders\<close> lists the months the loop renders; without the loop there is
  none of them.
\<close>

definition monthly_renders :: "(int \<Rightarrow> bool) \<Rightarrow> string \<Rightarrow> py_error + int list" where
  "monthly_renders has_data month =
     (case main_months month of
        Inl e \<Rightarrow> Inl e
      | Inr (PerMonth ms) \<Rightarrow> Inr (filter has_data ms)
      | Inr (SinglePeriod m) \<Rightarrow> Inr [])"

definition never_empty :: "int \<Rightarrow> bool" where
  "never_empty i = True"

definition render_count :: "(int \<Rightarrow> bool) \<Rightarrow> string \<Rightarrow> nat option" where
  "render_count has_data month =
     (case monthly_renders has_data month of Inl e \<Rightarrow> None | Inr ms \<Rightarrow> Some (length ms))"

subsection \<open>Coordinate mapper (osm\_helpers.py)\<close>

text \<open>
  \<open>np.radians\<close>, \<open>np.degrees\<close>, and the three conversions. Over the reals the
  formulas mean what the code computes only where \<open>cos lat_rad\<close> is positive, that is
  for a latitude strictly between -90 and 90 degrees; at a pole the float code yields an
  infinity or \<open>nan\<close>, which \<open>deg2xy\<close> below does not represent.
  \<open>2.0 ** zoom\<close> is \<open>2 powr zoom\<close>.
\<close>

definition radians :: "real \<Rightarrow> real" where
  "radians d = d * pi / 180"

definition degrees :: "real \<Rightarrow> real" where
  "degrees r = r * 180 / pi"

definition deg2xy :: "real \<Rightarrow> real \<Rightarrow> int \<Rightarrow> real \<times> real" where
  "deg2xy lat_deg lon_deg zoom =
     (let lat_rad = radians lat_deg;
          n = 2 powr (of_int zoom);
          x = (lon_deg + 180) / 360 * n;
          y = (1 - ln (tan lat_rad + 1 / cos lat_rad) / pi) / 2 * n
      in (x, y))"

text \<open>\<open>int(v)\<close> on a finite float: the fractional part is dropped.\<close>

definition py_int :: "real \<Rightarrow> int" where
  "py_int v = (if v \<ge> 0 then \<lfloor>v\<rfloor> else \<lceil>v\<rceil>)"

definition deg2tile_coord :: "real \<Rightarrow> real \<Rightarrow> int \<Rightarrow> int \<times> int" where
  "deg2tile_coord lat_deg lon_deg zoom =
     (let (x, y) = deg2xy lat_deg lon_deg zoom in (py_int x, py_int y))"

definition num2deg :: "int \<Rightarrow> int \<Rightarrow> int \<Rightarrow> real \<times> real" where
  "num2deg x_tile y_tile zoom =
     (let n = 2 powr (of_int zoom);
          lon_deg = of_int x_tile / n * 360 - 180;
          lat_rad = arctan (sinh (pi * (1 - 2 * of_int y_tile / n)));
          lat_deg = degrees lat_rad
      in (lat_deg, lon_deg))"

definition OSM_TILE_SIZE :: nat where
  "OSM_TILE_SIZE = 256"

definition MAX_TILE_COUNT :: int where
  "MAX_TILE_COUNT = 500"

subsection \<open>Tile files and the tile server (osm\_helpers.py)\<close>

text \<open>
  The effects of the program are on a \<open>world\<close>: the tile cache on disk, the requests
  sent to the tile server, and the lines printed. A tile file is kept as what
  \<open>plt.imread(file)[:, :, :3]\<close> gives for it: rows of RGB pixels. The file name
  \<open>tiles/tile_{zoom}_{x}_{y}.png\<close> is determined by the triple \<open>(zoom, x, y)\<close>, which
  is the key here. The progress bar is display only and is left out.
\<close>

type_synonym pixel = "real \<times> real \<times> real"
type_synonym image = "pixel list list"
type_synonym grid = "real list list"

datatype response = RequestException | NotOk | Ok image

type_synonym server = "string \<Rightarrow> int \<Rightarrow> int \<Rightarrow> int \<Rightarrow> response"

record world =
  tiles_dir :: bool
  tile_files :: "int \<times> int \<times> int \<Rightarrow> image option"
  requests :: "(string \<times> int \<times> int \<times> int) list"
  stdout :: "string list"

text \<open>
  \<open>download_tile_file\<close>: \<open>True\<close> after an ok response was written to the file;
  \<open>False\<close> after a request exception and \<open>None\<close> after a response that is not ok,
  both of which the caller's \<open>if not\<close> takes as failure.
\<close>

definition download_tile_file ::
  "server \<Rightarrow> string \<Rightarrow> int \<Rightarrow> int \<Rightarrow> int \<Rightarrow> world \<Rightarrow> bool \<times> world" where
  "download_tile_file srv url zoom x y w =
     (let w1 = w\<lparr>requests := requests w @ [(url, zoom, x, y)]\<rparr> in
      case srv url zoom x y of
        Ok content \<Rightarrow> (True, w1\<lparr>tile_files := (tile_files w1)((zoom, x, y) \<mapsto> content)\<rparr>)
      | _ \<Rightarrow> (False, w1))"

text \<open>The pairs \<open>(x, y)\<close> in the order of the nested loops: \<open>x\<close> outside, \<open>y\<close> inside.\<close>

definition tile_positions :: "int \<Rightarrow> int \<Rightarrow> int \<Rightarrow> int \<Rightarrow> (int \<times> int) list" where
  "tile_positions x_tile_min x_tile_max y_tile_min y_tile_max =
     concat (map (\<lambda>x. map (\<lambda>y. (x, y)) (py_range y_tile_min (y_tile_max + 1)))
                 (py_range x_tile_min (x_tile_max + 1)))"

text \<open>
  The download loop. When a download fails the code calls \<open>plt.imsave\<close> for a white
  placeholder, but in this module \<open>plt\<close> is \<open>matplotlib\<close> itself
  (\<open>import matplotlib as plt\<close>), which has no \<open>imsave\<close>: the call raises
  \<open>AttributeError\<close>.
\<close>

fun download_loop ::
  "server \<Rightarrow> string \<Rightarrow> int \<Rightarrow> (int \<times> int) list \<Rightarrow> world \<Rightarrow> (py_error + unit) \<times> world" where
  "download_loop srv url zoom [] w = (Inr (), w)"
| "download_loop srv url zoom ((x, y) # rest) w =
     (if tile_files w (zoom, x, y) \<noteq> None then download_loop srv url zoom rest w
      else
        (case download_tile_file srv url zoom x y w of
           (True, w1) \<Rightarrow> download_loop srv url zoom rest w1
         | (False, w1) \<Rightarrow> (Inl AttributeError, w1)))"

definition download_tiles_for_area ::
  "server \<Rightarrow> int \<Rightarrow> int \<Rightarrow> int \<Rightarrow> int \<Rightarrow> int \<Rightarrow> string \<Rightarrow> world \<Rightarrow> (py_error + unit) \<times> world" where
  "download_tiles_for_area srv x_tile_min x_tile_max y_tile_min y_tile_max zoom url w =
     (let tile_count = (x_tile_max - x_tile_min + 1) * (y_tile_max - y_tile_min + 1) in
      if tile_count > MAX_TILE_COUNT then
        (Inr (), w\<lparr>stdout := stdout w @ [''ERROR zoom value too high'']\<rparr>)
      else
        download_loop srv url zoom
          (tile_positions x_tile_min x_tile_max y_tile_min y_tile_max)
          (w\<lparr>tiles_dir := True\<rparr>))"

subsection \<open>The supertile (strava\_local\_heatmap.py)\<close>

text \<open>
  numpy assigns a tile to its block of the supertile after broadcasting it to the
  block's shape: an axis of the tile has the block's length or length one; any other
  length raises \<open>ValueError\<close>.
\<close>

definition broadcast_to :: "nat \<Rightarrow> 'a list \<Rightarrow> py_error + 'a list" where
  "broadcast_to n xs =
     (if length xs = n then Inr xs
      else if length xs = 1 then Inr (replicate n (hd xs))
      else Inl ValueError)"

fun map_err :: "('a \<Rightarrow> py_error + 'b) \<Rightarrow> 'a list \<Rightarrow> py_error + 'b list" where
  "map_err f [] = Inr []"
| "map_err f (x # xs) =
     (case f x of
        Inl e \<Rightarrow> Inl e
      | Inr y \<Rightarrow> (case map_err f xs of Inl e \<Rightarrow> Inl e | Inr ys \<Rightarrow> Inr (y # ys)))"

definition tile_block :: "image \<Rightarrow> py_error + image" where
  "tile_block tile =
     (case map_err (broadcast_to OSM_TILE_SIZE) tile of
        Inl e \<Rightarrow> Inl e
      | Inr rows \<Rightarrow> broadcast_to OSM_TILE_SIZE rows)"

text \<open>\<open>arr[r0:r0 + 256, c0:c0 + 256] = blk\<close> for a block inside the array.\<close>

definition set_block :: "'a list list \<Rightarrow> nat \<Rightarrow> nat \<Rightarrow> 'a list list \<Rightarrow> 'a list list" where
  "set_block arr r0 c0 blk =
     map (\<lambda>r. if r0 \<le> r \<and> r < r0 + OSM_TILE_SIZE
              then map (\<lambda>c. if c0 \<le> c \<and> c < c0 + OSM_TILE_SIZE
                            then blk ! (r - r0) ! (c - c0) else arr ! r ! c)
                       [0..<length (arr ! r)]
              else arr ! r)
         [0..<length arr]"

fun fill_supertile ::
  "world \<Rightarrow> int \<Rightarrow> int \<Rightarrow> int \<Rightarrow> (int \<times> int) list \<Rightarrow> image \<Rightarrow> py_error + image" where
  "fill_supertile w zoom x_tile_min y_tile_min [] supertile = Inr supertile"
| "fill_supertile w zoom x_tile_min y_tile_min ((x, y) # rest) supertile =
     (case tile_files w (zoom, x, y) of
        None \<Rightarrow> Inl FileNotFoundError
      | Some tile \<Rightarrow>
          (case tile_block tile of
             Inl e \<Rightarrow> Inl e
           | Inr blk \<Rightarrow>
               fill_supertile w zoom x_tile_min y_tile_min rest
                 (set_block supertile (nat (y - y_tile_min) * OSM_TILE_SIZE)
                                      (nat (x - x_tile_min) * OSM_TILE_SIZE) blk)))"

text \<open>The shape \<open>(rows, columns)\<close> of the supertile; \<open>np.zeros\<close> refuses a negative one.\<close>

definition supertile_size :: "int \<Rightarrow> int \<Rightarrow> int \<Rightarrow> int \<Rightarrow> int \<times> int" where
  "supertile_size x_tile_min x_tile_max y_tile_min y_tile_max =
     ((y_tile_max - y_tile_min + 1) * int OSM_TILE_SIZE,
      (x_tile_max - x_tile_min + 1) * int OSM_TILE_SIZE)"

definition np_zeros :: "nat \<Rightarrow> nat \<Rightarrow> 'a \<Rightarrow> 'a list list" where
  "np_zeros rows cols z = replicate rows (replicate cols z)"

definition invert_gray :: "pixel \<Rightarrow> pixel" where
  "invert_gray p =
     (case p of (r, g, b) \<Rightarrow>
        (let v = 1 - (0.2126 * r + 0.7152 * g + 0.0722 * b) in (v, v, v)))"

definition create_supertile ::
  "world \<Rightarrow> int \<Rightarrow> int \<Rightarrow> int \<Rightarrow> int \<Rightarrow> int \<Rightarrow> py_error + image" where
  "create_supertile w x_tile_min x_tile_max y_tile_min y_tile_max zoom =
     (case supertile_size x_tile_min x_tile_max y_tile_min y_tile_max of (rows, cols) \<Rightarrow>
        if rows < 0 \<or> cols < 0 then Inl ValueError
        else
          (case fill_supertile w zoom x_tile_min y_tile_min
                  (tile_positions x_tile_min x_tile_max y_tile_min y_tile_max)
                  (np_zeros (nat rows) (nat cols) (0, 0, 0)) of
             Inl e \<Rightarrow> Inl e
           | Inr supertile \<Rightarrow> Inr (map (map invert_gray) supertile)))"

subsection \<open>Density accumulation, clamping, smoothing, normalization\<close>

definition crop ::
  "(real \<times> real) list \<Rightarrow> real \<Rightarrow> real \<Rightarrow> real \<Rightarrow> real \<Rightarrow> (real \<times> real) list" where
  "crop lat_lon_data lat_bound_min lat_bound_max lon_bound_min lon_bound_max =
     filter (\<lambda>p. snd p > lon_bound_min \<and> snd p < lon_bound_max)
       (filter (\<lambda>p. fst p > lat_bound_min \<and> fst p < lat_bound_max) lat_lon_data)"

text \<open>\<open>a.min()\<close> and \<open>a.max()\<close>: \<open>ValueError\<close> on an array without elements.\<close>

fun np_min :: "real list \<Rightarrow> py_error + real" where
  "np_min [] = Inl ValueError"
| "np_min (v # vs) = Inr (fold min vs v)"

fun np_max :: "real list \<Rightarrow> py_error + real" where
  "np_max [] = Inl ValueError"
| "np_max (v # vs) = Inr (fold max vs v)"

text \<open>
  The tile index rectangle \<open>(x_tile_min, x_tile_max, y_tile_min, y_tile_max)\<close>: from the
  bounding box when \<open>equal\<close> is set, from the extent of the cropped data otherwise.
\<close>

definition tile_rectangle ::
  "bool \<Rightarrow> (real \<times> real) list \<Rightarrow> real \<Rightarrow> real \<Rightarrow> real \<Rightarrow> real \<Rightarrow> int
     \<Rightarrow> py_error + int \<times> int \<times> int \<times> int" where
  "tile_rectangle equal pts lat_bound_min lat_bound_max lon_bound_min lon_bound_max zoom =
     (if equal then
        (case deg2tile_coord lat_bound_min lon_bound_min zoom of (x_tile_min, y_tile_max) \<Rightarrow>
         case deg2tile_coord lat_bound_max lon_bound_max zoom of (x_tile_max, y_tile_min) \<Rightarrow>
           Inr (x_tile_min, x_tile_max, y_tile_min, y_tile_max))
      else
        (case np_min (map fst pts) of Inl e \<Rightarrow> Inl e | Inr lat_min \<Rightarrow>
         case np_max (map fst pts) of Inl e \<Rightarrow> Inl e | Inr lat_max \<Rightarrow>
         case np_min (map snd pts) of Inl e \<Rightarrow> Inl e | Inr lon_min \<Rightarrow>
         case np_max (map snd pts) of Inl e \<Rightarrow> Inl e | Inr lon_max \<Rightarrow>
         case deg2tile_coord lat_min lon_min zoom of (x_tile_min, y_tile_max) \<Rightarrow>
         case deg2tile_coord lat_max lon_max zoom of (x_tile_max, y_tile_min) \<Rightarrow>
           Inr (x_tile_min, x_tile_max, y_tile_min, y_tile_max)))"

text \<open>\<open>int(np.round(v))\<close>: numpy rounds a half to the even neighbour.\<close>

definition np_round :: "real \<Rightarrow> int" where
  "np_round v =
     (let f = \<lfloor>v\<rfloor>; d = v - of_int f in
      if d < 1 / 2 then f else if d > 1 / 2 then f + 1 else if even f then f else f + 1)"

text \<open>
  A slice \<open>a[start:stop]\<close> of a sequence of length \<open>n\<close>: a negative bound counts from
  the end, and both bounds are then clipped to \<open>0 .. n\<close>. The slice holds the indices
  \<open>k\<close> with \<open>lo \<le> k < hi\<close> for the pair \<open>(lo, hi)\<close> returned; it never raises.
\<close>

definition slice_index :: "int \<Rightarrow> nat \<Rightarrow> nat" where
  "slice_index k n = (if k < 0 then nat (max (k + int n) 0) else nat (min k (int n)))"

definition slice_bounds :: "int \<Rightarrow> int \<Rightarrow> nat \<Rightarrow> nat \<times> nat" where
  "slice_bounds start stop n = (slice_index start n, slice_index stop n)"

text \<open>\<open>data[i - w:i + w + 1, j - w:j + w + 1] += 1\<close>, and the cells that slice holds.\<close>

definition window_cells :: "grid \<Rightarrow> int \<Rightarrow> int \<Rightarrow> int \<Rightarrow> (nat \<times> nat) set" where
  "window_cells data i j w =
     {(r, c). r < length data \<and> c < length (data ! r) \<and>
        fst (slice_bounds (i - w) (i + w + 1) (length data)) \<le> r \<and>
        r < snd (slice_bounds (i - w) (i + w + 1) (length data)) \<and>
        fst (slice_bounds (j - w) (j + w + 1) (length (data ! r))) \<le> c \<and>
        c < snd (slice_bounds (j - w) (j + w + 1) (length (data ! r)))}"

definition add_window :: "grid \<Rightarrow> int \<Rightarrow> int \<Rightarrow> int \<Rightarrow> grid" where
  "add_window data i j w =
     (case slice_bounds (i - w) (i + w + 1) (length data) of (r0, r1) \<Rightarrow>
        map (\<lambda>r. if r0 \<le> r \<and> r < r1 then
                   (case slice_bounds (j - w) (j + w + 1) (length (data ! r)) of (c0, c1) \<Rightarrow>
                      map (\<lambda>c. if c0 \<le> c \<and> c < c1 then data ! r ! c + 1 else data ! r ! c)
                          [0..<length (data ! r)])
                 else data ! r)
            [0..<length data])"

text \<open>The pixel row and column of a trackpoint, and the loop over the trackpoints.\<close>

definition pixel_of :: "real \<times> real \<Rightarrow> int \<Rightarrow> int \<Rightarrow> int \<Rightarrow> int \<times> int" where
  "pixel_of p x_tile_min y_tile_min zoom =
     (case deg2xy (fst p) (snd p) zoom of (x, y) \<Rightarrow>
        (np_round ((y - of_int y_tile_min) * real OSM_TILE_SIZE),
         np_round ((x - of_int x_tile_min) * real OSM_TILE_SIZE)))"

definition accumulate ::
  "(real \<times> real) list \<Rightarrow> int \<Rightarrow> int \<Rightarrow> int \<Rightarrow> int \<Rightarrow> grid \<Rightarrow> grid" where
  "accumulate pts x_tile_min y_tile_min zoom w_pixels data =
     fold (\<lambda>p d. case pixel_of p x_tile_min y_tile_min zoom of (i, j) \<Rightarrow>
                    add_window d i j w_pixels) pts data"

text \<open>
  \<open>np.mean\<close> of no values is \<open>nan\<close> (0/0), and \<open>nan\<close> goes through the cosine and
  the products. \<open>data[data > m] = m\<close> changes nothing when \<open>m\<close> is \<open>nan\<close>, as every
  comparison with \<open>nan\<close> is false.
\<close>

definition np_mean :: "real list \<Rightarrow> npfloat" where
  "np_mean vs = (if vs = [] then NaN else Fin (sum_list vs / real (length vs)))"

definition pixel_res :: "(real \<times> real) list \<Rightarrow> int \<Rightarrow> npfloat" where
  "pixel_res pts zoom =
     (case np_mean (map fst pts) of
        Fin mu \<Rightarrow> Fin (156543.03 * cos (radians mu) / 2 powr (of_int zoom))
      | _ \<Rightarrow> NaN)"

definition max_accumulation :: "(real \<times> real) list \<Rightarrow> int \<Rightarrow> int \<Rightarrow> npfloat" where
  "max_accumulation pts zoom nr_activities =
     (case pixel_res pts zoom of
        Fin pr \<Rightarrow> Fin ((1 / 5) * pr * of_int nr_activities)
      | PInf \<Rightarrow> (if nr_activities > 0 then PInf else if nr_activities < 0 then NInf else NaN)
      | NInf \<Rightarrow> (if nr_activities > 0 then NInf else if nr_activities < 0 then PInf else NaN)
      | NaN \<Rightarrow> NaN)"

text \<open>
  The threshold \<open>m\<close> is a finite number or \<open>nan\<close> (lemma \<open>max_accumulation_cases\<close>
  below), so the grid stays a grid of finite numbers.
\<close>

definition threshold :: "npfloat \<Rightarrow> grid \<Rightarrow> grid" where
  "threshold m data =
     (case m of
        Fin mv \<Rightarrow> map (map (\<lambda>v. if v > mv then mv else v)) data
      | _ \<Rightarrow> data)"

text \<open>
  \<open>box_filter\<close> multiplies the transforms of the image and of the box, which was
  cut or padded with zeros to the image's shape: the result is the circular convolution
  of the two. The width of the image is taken to be even, as the inverse transform
  returns another width otherwise; here it is a multiple of 256. The transform of an
  array without elements raises \<open>ValueError\<close>.
\<close>

definition box_filter :: "grid \<Rightarrow> int \<Rightarrow> py_error + grid" where
  "box_filter img w_box =
     (if img = [] \<or> hd img = [] then Inl ValueError
      else
        (let h = length img; w = length (hd img);
             kh = min (nat w_box) h; kw = min (nat w_box) w
         in Inr (map (\<lambda>i. map (\<lambda>j.
                   (\<Sum>a\<leftarrow>[0..<kh]. \<Sum>b\<leftarrow>[0..<kw].
                       img ! ((i + h - a) mod h) ! ((j + w - b) mod w))
                     / (of_int w_box)\<^sup>2) [0..<w]) [0..<h])))"

text \<open>Division of two finite floats, as numpy does it: a zero divisor gives no error.\<close>

definition np_div :: "real \<Rightarrow> real \<Rightarrow> npfloat" where
  "np_div a b =
     (if b \<noteq> 0 then Fin (a / b)
      else if a = 0 then NaN else if a > 0 then PInf else NInf)"

definition normalize_data :: "grid \<Rightarrow> py_error + npfloat list list" where
  "normalize_data data =
     (case np_min (concat data) of Inl e \<Rightarrow> Inl e | Inr lo \<Rightarrow>
      case np_max (concat data) of Inl e \<Rightarrow> Inl e | Inr hi \<Rightarrow>
        Inr (map (map (\<lambda>v. np_div (v - lo) (hi - lo))) data))"

text \<open>The kernel width \<open>int(np.sqrt(12.0 * sigma_pixels ** 2 + 1.0))\<close>.\<close>

definition w_filter :: "int \<Rightarrow> int" where
  "w_filter sigma_pixels = py_int (sqrt (12 * (of_int sigma_pixels)\<^sup>2 + 1))"

text \<open>
  The stages of \<open>create_heatmap\<close> between the supertile and the colours: the grid of
  zeros after the loop over the trackpoints (\<open>accumulated\<close>), after the threshold
  (\<open>clamped\<close>), and after the box filter and the normalization (\<open>density\<close>).
  \<open>w_pixels = int(sigma_pixels)\<close> is \<open>sigma_pixels\<close> itself, an integer.
\<close>

definition accumulated ::
  "(real \<times> real) list \<Rightarrow> int \<Rightarrow> int \<Rightarrow> int \<Rightarrow> int \<Rightarrow> nat \<Rightarrow> nat \<Rightarrow> grid" where
  "accumulated pts x_tile_min y_tile_min zoom sigma_pixels rows cols =
     accumulate pts x_tile_min y_tile_min zoom sigma_pixels (np_zeros rows cols 0)"

definition clamped ::
  "(real \<times> real) list \<Rightarrow> int \<Rightarrow> int \<Rightarrow> int \<Rightarrow> int \<Rightarrow> int \<Rightarrow> nat \<Rightarrow> nat \<Rightarrow> grid" where
  "clamped pts nr_activities x_tile_min y_tile_min zoom sigma_pixels rows cols =
     threshold (max_accumulation pts zoom nr_activities)
       (accumulated pts x_tile_min y_tile_min zoom sigma_pixels rows cols)"

definition density ::
  "(real \<times> real) list \<Rightarrow> int \<Rightarrow> int \<Rightarrow> int \<Rightarrow> int \<Rightarrow> int \<Rightarrow> nat \<Rightarrow> nat
     \<Rightarrow> py_error + npfloat list list" where
  "density pts nr_activities x_tile_min y_tile_min zoom sigma_pixels rows cols =
     (case box_filter
             (clamped pts nr_activities x_tile_min y_tile_min zoom sigma_pixels rows cols)
             (w_filter sigma_pixels) of
        Inl e \<Rightarrow> Inl e
      | Inr data \<Rightarrow> normalize_data data)"

subsection \<open>Colorizing and compositing\<close>

text \<open>
  The colour map is matplotlib's; it is a parameter here, from a density value (which
  may be \<open>nan\<close>) to RGBA. \<open>cmap(0)\<close> is the first entry of its table, which is also
  its value at density 0.
\<close>

type_synonym colormap = "npfloat \<Rightarrow> real \<times> real \<times> real \<times> real"

definition colorize :: "colormap \<Rightarrow> npfloat list list \<Rightarrow> image" where
  "colorize cmap data =
     map (map (\<lambda>v. case (if cmap v = cmap (Fin 0) then (0, 0, 0, 1) else cmap v) of
                     (r, g, b, a) \<Rightarrow> (r, g, b))) data"

definition blend :: "pixel \<Rightarrow> pixel \<Rightarrow> pixel" where
  "blend color base =
     (case color of (cr, cg, cb) \<Rightarrow> case base of (br, bg, bb) \<Rightarrow>
        ((1 - cr) * br + cr, (1 - cg) * bg + cg, (1 - cb) * bb + cb))"

text \<open>The overlay loop, for a colour layer and a supertile of one shape.\<close>

definition overlay :: "image \<Rightarrow> image \<Rightarrow> image" where
  "overlay data_color supertile = map2 (map2 blend) data_color supertile"

subsection \<open>The render\<close>

definition create_heatmap ::
  "server \<Rightarrow> colormap \<Rightarrow> (real \<times> real) list \<Rightarrow> int \<Rightarrow> real \<Rightarrow> real \<Rightarrow> real \<Rightarrow> real
     \<Rightarrow> int \<Rightarrow> int \<Rightarrow> bool \<Rightarrow> string \<Rightarrow> world \<Rightarrow> (py_error + image) \<times> world" where
  "create_heatmap srv cmap lat_lon_data nr_activities lat_bound_min lat_bound_max
       lon_bound_min lon_bound_max heatmap_zoom sigma_pixels equal url w =
     (let pts = crop lat_lon_data lat_bound_min lat_bound_max lon_bound_min lon_bound_max in
      case tile_rectangle equal pts lat_bound_min lat_bound_max lon_bound_min lon_bound_max
             heatmap_zoom of
        Inl e \<Rightarrow> (Inl e, w)
      | Inr (x_tile_min, x_tile_max, y_tile_min, y_tile_max) \<Rightarrow>
          (case download_tiles_for_area srv x_tile_min x_tile_max y_tile_min y_tile_max
                  heatmap_zoom url w of
             (Inl e, w1) \<Rightarrow> (Inl e, w1)
           | (Inr u, w1) \<Rightarrow>
               (let w2 = w1\<lparr>stdout := stdout w1 @ [''creating heatmap...'']\<rparr> in
                case create_supertile w2 x_tile_min x_tile_max y_tile_min y_tile_max
                       heatmap_zoom of
                  Inl e \<Rightarrow> (Inl e, w2)
                | Inr supertile \<Rightarrow>
                    (case supertile_size x_tile_min x_tile_max y_tile_min y_tile_max of
                       (rows, cols) \<Rightarrow>
                         (case density pts nr_activities x_tile_min y_tile_min heatmap_zoom
                                 sigma_pixels (nat rows) (nat cols) of
                            Inl e \<Rightarrow> (Inl e, w2)
                          | Inr data \<Rightarrow> (Inr (overlay (colorize cmap data) supertile), w2))))))"

subsection \<open>Shapes and two tile caches\<close>

text \<open>
  An array of \<open>rows\<close> rows of \<open>cols\<close> cells each; a tile file that decodes to a
  256 by 256 image; a world with an empty tile cache and nothing printed; and a world
  with every tile file on disk, each a white tile.
\<close>

definition shaped :: "nat \<Rightarrow> nat \<Rightarrow> 'a list list \<Rightarrow> bool" where
  "shaped rows cols arr \<longleftrightarrow> length arr = rows \<and> list_all (\<lambda>row. length row = cols) arr"

definition tile_ok :: "image \<Rightarrow> bool" where
  "tile_ok t \<longleftrightarrow> shaped OSM_TILE_SIZE OSM_TILE_SIZE t"

definition no_tiles :: world where
  "no_tiles = \<lparr>tiles_dir = False, tile_files = (\<lambda>k. None), requests = [], stdout = []\<rparr>"

text \<open>A tile server that cannot be reached, and a colour map with a single colour.\<close>

definition offline :: server where
  "offline url zoom x y = RequestException"

definition flat_cmap :: colormap where
  "flat_cmap v = (0, 0, 0, 1)"

definition white_tile :: image where
  "white_tile = np_zeros OSM_TILE_SIZE OSM_TILE_SIZE (1, 1, 1)"

definition cached_tiles :: world where
  "cached_tiles =
     \<lparr>tiles_dir = True, tile_files = (\<lambda>k. Some white_tile), requests = [], stdout = []\<rparr>"

subsection \<open>Taylor polynomials\<close>

text \<open>
  The partial sums of the sine, cosine and exponential series that bound the reference
  values of the projection: the sine up to the power 15, the cosine up to the power 14,
  the exponential up to the power 16.
\<close>

definition sin_poly :: "real \<Rightarrow> real" where
  "sin_poly x = x - x^3/6 + x^5/120 - x^7/5040 + x^9/362880 - x^11/39916800
     + x^13/6227020800 - x^15/1307674368000"

definition cos_poly :: "real \<Rightarrow> real" where
  "cos_poly x = 1 - x^2/2 + x^4/24 - x^6/720 + x^8/40320 - x^10/3628800
     + x^12/479001600 - x^14/87178291200"

definition exp_poly :: "real \<Rightarrow> real" where
  "exp_poly x = 1 + x + x^2/2 + x^3/6 + x^4/24 + x^5/120 + x^6/720 + x^7/5040 + x^8/40320
     + x^9/362880 + x^10/3628800 + x^11/39916800 + x^12/479001600 + x^13/6227020800
     + x^14/87178291200 + x^15/1307674368000 + x^16/20922789888000"

section \<open>Month ranges\<close>

lemma extract_3_9: "extract_start_stop_from_month ''3-9'' = Inr (3, 10)"
  by (simp add: extract_start_stop_from_month_def int_of_str_def strip_def is_space_def
      unsigned_int_def digit_val_def)

lemma extract_1_12: "extract_start_stop_from_month ''1-12'' = Inr (1, 13)"
  by (simp add: extract_start_stop_from_month_def int_of_str_def strip_def is_space_def
      unsigned_int_def digit_val_def)

lemma main_months_3_9: "main_months ''3-9'' = Inr (PerMonth [3, 4, 5, 6, 7, 8, 9])"
  by (simp add: main_months_def extract_3_9 py_range_def upto.simps)

lemma main_months_1_12:
  "main_months ''1-12'' = Inr (PerMonth [1, 2, 3, 4, 5, 6, 7, 8, 9, 10, 11, 12])"
  by (simp add: main_months_def extract_1_12 py_range_def upto.simps)

lemma main_months_0:
  "main_months ''0'' = Inr (PerMonth [1, 2, 3, 4, 5, 6, 7, 8, 9, 10, 11, 12])"
  by (simp add: main_months_def py_range_def upto.simps)

text \<open>
  C7, as stated, is false: the months 3 through 9 are seven months, so the loop for
  \<open>"3-9"\<close> makes seven renders when no month is empty, not nine.
\<close>

theorem month_range_3_9_not_nine_renders:
  "render_count never_empty ''3-9'' \<noteq> Some 9"
  by (simp add: render_count_def monthly_renders_def main_months_3_9 never_empty_def)

text \<open>
  C7, amended: the month string \<open>"3-9"\<close> makes \<open>main\<close> iterate over exactly the months
  3, 4, 5, 6, 7, 8, 9, which is seven renders when no month is empty; the month string
  \<open>"0"\<close> gives the same iteration as \<open>"1-12"\<close>, over all twelve months.
\<close>

theorem month_range_iteration:
  "main_months ''3-9'' = Inr (PerMonth [3, 4, 5, 6, 7, 8, 9])
   \<and> monthly_renders never_empty ''3-9'' = Inr [3, 4, 5, 6, 7, 8, 9]
   \<and> render_count never_empty ''3-9'' = Some 7
   \<and> main_months ''0'' = main_months ''1-12''
   \<and> main_months ''0'' = Inr (PerMonth [1, 2, 3, 4, 5, 6, 7, 8, 9, 10, 11, 12])
   \<and> render_count never_empty ''0'' = Some 12"
  by (simp add: render_count_def monthly_renders_def main_months_3_9 main_months_0
      main_months_1_12 never_empty_def)

section \<open>The coordinate mapper\<close>

lemma py_int_trunc: "real_of_int (py_int v) = sgn v * of_int \<lfloor>\<bar>v\<bar>\<rfloor>"
proof (cases "v \<ge> 0")
  case True
  then show ?thesis by (cases "v = 0") (simp_all add: py_int_def sgn_if)
next
  case False
  then have "v < 0" by simp
  moreover have "\<lceil>v\<rceil> = - \<lfloor>- v\<rfloor>" by (simp add: ceiling_def)
  ultimately show ?thesis by (simp add: py_int_def sgn_if)
qed

lemma py_int_bounds: "\<bar>real_of_int (py_int v)\<bar> \<le> \<bar>v\<bar> \<and> \<bar>v - of_int (py_int v)\<bar> < 1"
  unfolding py_int_def by (auto; linarith)

lemma deg2xy_equator:
  "deg2xy 0 lon zoom = ((lon + 180) / 360 * 2 powr (of_int zoom), 2 powr (of_int zoom) / 2)"
  by (simp add: deg2xy_def radians_def Let_def)

text \<open>
  C8: for a latitude strictly between -90 and 90 degrees, any longitude and any zoom,
  \<open>deg2tile_coord\<close> returns the two coordinates of \<open>deg2xy\<close> truncated toward zero:
  each result is the sign of the coordinate times the floor of its absolute value, so it
  is no larger in absolute value than the coordinate and less than one away from it.
\<close>

theorem deg2tile_coord_truncates:
  assumes "- 90 < lat" and "lat < 90"
    and "deg2xy lat lon zoom = (x, y)"
    and "deg2tile_coord lat lon zoom = (xi, yi)"
  shows "real_of_int xi = sgn x * of_int \<lfloor>\<bar>x\<bar>\<rfloor> \<and> real_of_int yi = sgn y * of_int \<lfloor>\<bar>y\<bar>\<rfloor>
         \<and> \<bar>real_of_int xi\<bar> \<le> \<bar>x\<bar> \<and> \<bar>x - of_int xi\<bar> < 1
         \<and> \<bar>real_of_int yi\<bar> \<le> \<bar>y\<bar> \<and> \<bar>y - of_int yi\<bar> < 1"
  using assms(3,4) py_int_trunc[of x] py_int_trunc[of y] py_int_bounds[of x] py_int_bounds[of y]
  by (simp add: deg2tile_coord_def)

text \<open>
  On the equator at longitude 90 and zoom 0 the coordinates are (3/4, 1/2): the tile is
  (0, 0), where rounding the first coordinate would give 1.
\<close>

theorem deg2tile_coord_truncates_witness:
  "- 90 < (0::real) \<and> (0::real) < 90 \<and> deg2xy 0 90 0 = (3 / 4, 1 / 2)
   \<and> deg2tile_coord 0 90 0 = (0, 0)
   \<and> round (3 / 4 :: real) = 1
   \<and> real_of_int 0 = sgn (3 / 4 :: real) * of_int \<lfloor>\<bar>3 / 4 :: real\<bar>\<rfloor>"
proof -
  have a: "deg2xy 0 90 0 = (3 / 4, 1 / 2)" by (simp add: deg2xy_equator)
  have b: "deg2tile_coord 0 90 0 = (0, 0)" by (simp add: deg2tile_coord_def a py_int_def)
  have c: "round (3 / 4 :: real) = 1" by (simp add: round_def)
  from deg2tile_coord_truncates[OF _ _ a b] a b c show ?thesis by simp
qed

text \<open>
  The way back, \<open>num2deg\<close>, and the round trip of a tile corner. In exact arithmetic
  the corner of the tile \<open>(x_tile, y_tile)\<close> projects to exactly
  \<open>(x_tile, y_tile)\<close>, and the truncation returns the tile. This is a statement about
  the formulas over the reals only: the truncation is discontinuous at exactly these
  points, so for the float64 code the rounding of \<open>arctan\<close>, \<open>sinh\<close>, \<open>tan\<close>,
  \<open>cos\<close> and \<open>log\<close> decides whether the corner lands in its own tile or in the
  one before, and that rounding is not part of this model.
\<close>

lemma py_int_of_int: "py_int (of_int k) = k"
  by (simp add: py_int_def)

lemma sec_arctan_sinh: "tan (arctan (sinh t)) + 1 / cos (arctan (sinh t)) = exp (t::real)"
proof -
  have "1 + (sinh t)\<^sup>2 = (cosh t)\<^sup>2"
    using cosh_square_eq[of t] by simp
  then have "sqrt (1 + (sinh t)\<^sup>2) = cosh t"
    using cosh_real_nonneg[of t] by simp
  then have "1 / cos (arctan (sinh t)) = cosh t"
    by (simp add: cos_arctan)
  then show ?thesis by (simp add: tan_arctan sinh_plus_cosh)
qed

lemma num2deg_roundtrip_exact:
  "deg2xy (fst (num2deg x_tile y_tile zoom)) (snd (num2deg x_tile y_tile zoom)) zoom
   = (of_int x_tile, of_int y_tile)"
proof -
  let ?n = "2 powr (of_int zoom) :: real"
  have n: "?n \<noteq> 0" by simp
  have r: "radians (degrees v) = v" for v by (simp add: radians_def degrees_def)
  have "ln (exp (pi * (1 - 2 * of_int y_tile / ?n))) = pi * (1 - 2 * of_int y_tile / ?n)"
    by simp
  then show ?thesis
    using n by (simp add: deg2xy_def num2deg_def Let_def r sec_arctan_sinh field_simps)
qed

lemma tile_roundtrip_exact:
  "deg2tile_coord (fst (num2deg x_tile y_tile zoom)) (snd (num2deg x_tile y_tile zoom)) zoom
   = (x_tile, y_tile)"
  by (simp add: deg2tile_coord_def num2deg_roundtrip_exact py_int_of_int)

section \<open>Reference values of the projection\<close>

text \<open>
  Bounds for the sine, the cosine and the exponential from their Maclaurin expansions
  with the remainder, to be evaluated at rational points.
\<close>

lemma sum_upto_17:
  "(\<Sum>m<17. g m) = g (0::nat) + g 1 + g 2 + g 3 + g 4 + g 5 + g 6 + g 7 + g 8 + g 9
    + g 10 + g 11 + g 12 + g 13 + g 14 + g 15 + (g 16 :: real)"
  by (simp add: eval_nat_numeral)

lemma sum_upto_16:
  "(\<Sum>m<16. g m) = g (0::nat) + g 1 + g 2 + g 3 + g 4 + g 5 + g 6 + g 7 + g 8 + g 9
    + g 10 + g 11 + g 12 + g 13 + g 14 + (g 15 :: real)"
  by (simp add: eval_nat_numeral)

lemma sin_taylor_17: "(\<Sum>m<17. sin_coeff m * x ^ m) = sin_poly x"
  unfolding sum_upto_17 sin_poly_def by (simp add: sin_coeff_def fact_numeral)

lemma cos_taylor_16: "(\<Sum>m<16. cos_coeff m * x ^ m) = cos_poly x"
  unfolding sum_upto_16 cos_poly_def by (simp add: cos_coeff_def fact_numeral)

lemma exp_taylor_17: "(\<Sum>m<17. x ^ m / fact m) = exp_poly x"
  unfolding sum_upto_17 exp_poly_def by (simp add: fact_numeral)

lemma fact_17: "fact 17 = (355687428096000 :: real)"
  by (simp add: fact_numeral)

lemma fact_16: "fact 16 = (20922789888000 :: real)"
  by (simp add: fact_numeral)

lemma sin_bounds:
  assumes "0 \<le> x"
  shows "sin_poly x - x^17 / 355687428096000 \<le> sin x"
    and "sin x \<le> sin_poly x + x^17 / 355687428096000"
proof -
  have "\<bar>sin x - (\<Sum>m<17. sin_coeff m * x ^ m)\<bar> \<le> inverse (fact 17) * \<bar>x\<bar> ^ 17"
    by (rule Maclaurin_sin_bound)
  then have "\<bar>sin x - sin_poly x\<bar> \<le> x^17 / 355687428096000"
    using assms by (simp only: sin_taylor_17 fact_17 abs_of_nonneg inverse_eq_divide)
  then show "sin_poly x - x^17 / 355687428096000 \<le> sin x"
    and "sin x \<le> sin_poly x + x^17 / 355687428096000"
    by linarith+
qed

lemma cos_bounds:
  assumes "0 < x"
  shows "cos_poly x - x^16 / 20922789888000 \<le> cos x"
    and "cos x \<le> cos_poly x + x^16 / 20922789888000"
proof -
  obtain t where "cos x = (\<Sum>m<16. cos_coeff m * x ^ m)
      + (cos (t + 1/2 * real (16::nat) * pi) / fact 16) * x ^ 16"
    using Maclaurin_cos_expansion2[OF assms, of 16] by auto
  then have e: "cos x = cos_poly x
      + cos (t + 1/2 * real (16::nat) * pi) * (x ^ 16 / 20922789888000)"
    by (simp only: cos_taylor_16 fact_16)
  have r: "0 \<le> x ^ 16 / 20922789888000" using assms by simp
  have "\<bar>cos (t + 1/2 * real (16::nat) * pi)\<bar> \<le> 1" by (rule abs_cos_le_one)
  then have "\<bar>cos (t + 1/2 * real (16::nat) * pi)\<bar> * (x ^ 16 / 20922789888000)
      \<le> 1 * (x ^ 16 / 20922789888000)"
    using r by (intro mult_right_mono)
  then have "\<bar>cos (t + 1/2 * real (16::nat) * pi) * (x ^ 16 / 20922789888000)\<bar>
      \<le> x ^ 16 / 20922789888000"
    using r by (simp only: abs_mult abs_of_nonneg mult_1)
  with e show "cos_poly x - x^16 / 20922789888000 \<le> cos x"
    and "cos x \<le> cos_poly x + x^16 / 20922789888000"
    by linarith+
qed

lemma exp_lower:
  assumes "0 \<le> x"
  shows "exp_poly x \<le> exp x"
proof -
  obtain t where "exp x = (\<Sum>m<17. x ^ m / fact m) + (exp t / fact 17) * x ^ 17"
    using Maclaurin_exp_le[of x 17] by auto
  then have e: "exp x = exp_poly x + exp t * (x ^ 17 / 355687428096000)"
    by (simp only: exp_taylor_17 fact_17)
  have "0 \<le> exp t * (x ^ 17 / 355687428096000)" using assms by simp
  with e show ?thesis by linarith
qed

lemma exp_upper:
  assumes "0 \<le> x" and "x^17 / 355687428096000 < 1"
  shows "exp x \<le> exp_poly x / (1 - x^17 / 355687428096000)"
proof -
  obtain t where t: "\<bar>t\<bar> \<le> \<bar>x\<bar>"
    and "exp x = (\<Sum>m<17. x ^ m / fact m) + (exp t / fact 17) * x ^ 17"
    using Maclaurin_exp_le[of x 17] by auto
  then have e: "exp x = exp_poly x + exp t * (x ^ 17 / 355687428096000)"
    by (simp only: exp_taylor_17 fact_17)
  have r: "0 \<le> x ^ 17 / 355687428096000" using assms by simp
  have "t \<le> x" using t assms by linarith
  then have "exp t \<le> exp x" by simp
  then have "exp t * (x ^ 17 / 355687428096000) \<le> exp x * (x ^ 17 / 355687428096000)"
    using r by (rule mult_right_mono)
  with e have "exp x - exp x * (x ^ 17 / 355687428096000) \<le> exp_poly x"
    by linarith
  then have "exp x * (1 - x ^ 17 / 355687428096000) \<le> exp_poly x"
    by (simp only: right_diff_distrib mult_1_right)
  then show ?thesis
    using assms(2) by (simp add: pos_le_divide_eq)
qed

lemma div_le_div_cross:
  fixes e d n h :: real
  assumes "0 < d" and "0 < h" and "e * h \<le> n * d"
  shows "e / d \<le> n / h"
  using assms by (simp add: field_simps)

text \<open>
  The logarithm in \<open>deg2xy\<close> for an angle \<open>p\<close> between two rational points of the
  first quadrant, from rational bounds of the polynomials at these points.
\<close>

lemma mercator_ln_interval:
  fixes p flo fhi slo shi clo chi a b :: real
  assumes p: "flo \<le> p" "p \<le> fhi" and range: "0 < flo" "fhi \<le> pi / 2"
    and s_lo: "slo \<le> sin_poly flo - flo^17 / 355687428096000"
    and s_hi: "sin_poly fhi + fhi^17 / 355687428096000 \<le> shi"
    and c_lo: "clo \<le> cos_poly fhi - fhi^16 / 20922789888000"
    and c_hi: "cos_poly flo + flo^16 / 20922789888000 \<le> chi"
    and pos: "0 < clo" "0 < 1 + slo"
    and a: "0 \<le> a" "a^17 / 355687428096000 < 1"
      "exp_poly a * chi \<le> (1 + slo) * (1 - a^17 / 355687428096000)"
    and b: "0 \<le> b" "1 + shi \<le> exp_poly b * clo"
  shows "a \<le> ln (tan p + 1 / cos p)" and "ln (tan p + 1 / cos p) \<le> b"
proof -
  let ?T = "tan p + 1 / cos p"
  have q: "- (pi / 2) \<le> flo" "0 \<le> flo" "0 < fhi" "0 \<le> fhi" "0 \<le> p" "p \<le> pi / 2"
    "p \<le> pi" "fhi \<le> pi"
    using p range pi_ge_two by linarith+
  have sl: "slo \<le> sin p"
  proof -
    have "slo \<le> sin flo" using sin_bounds(1)[OF q(2)] s_lo by linarith
    also have "\<dots> \<le> sin p" using p q by (intro sin_monotone_2pi_le)
    finally show ?thesis .
  qed
  have sh: "sin p \<le> shi"
  proof -
    have "sin p \<le> sin fhi" using p q range by (intro sin_monotone_2pi_le) linarith+
    also have "\<dots> \<le> shi" using sin_bounds(2)[OF q(4)] s_hi by linarith
    finally show ?thesis .
  qed
  have cl: "clo \<le> cos p"
  proof -
    have "clo \<le> cos fhi" using cos_bounds(1)[OF q(3)] c_lo by linarith
    also have "\<dots> \<le> cos p" using p q by (intro cos_monotone_0_pi_le)
    finally show ?thesis .
  qed
  have ch: "cos p \<le> chi"
  proof -
    have "cos p \<le> cos flo" using p q by (intro cos_monotone_0_pi_le)
    also have "\<dots> \<le> chi" using cos_bounds(2)[OF range(1)] c_hi by linarith
    finally show ?thesis .
  qed
  have c_pos: "0 < cos p" "0 < chi" using cl ch pos by linarith+
  have T: "?T = (1 + sin p) / cos p"
    by (simp add: tan_def add_divide_distrib)
  have T_lo: "(1 + slo) / chi \<le> ?T"
    unfolding T using sl ch c_pos pos by (intro frac_le) linarith+
  have T_hi: "?T \<le> (1 + shi) / clo"
    unfolding T using sh cl sl pos by (intro frac_le) linarith+
  have T_pos: "0 < ?T"
    unfolding T using sl pos c_pos by (intro divide_pos_pos) linarith+
  have "exp a \<le> exp_poly a / (1 - a^17 / 355687428096000)"
    using a by (intro exp_upper)
  also have "\<dots> \<le> (1 + slo) / chi"
    using a c_pos by (intro div_le_div_cross) linarith+
  also have "\<dots> \<le> ?T" by (rule T_lo)
  finally show "a \<le> ln ?T"
    using T_pos by (simp only: ln_ge_iff)
  have "?T \<le> (1 + shi) / clo" by (rule T_hi)
  also have "\<dots> \<le> exp_poly b"
    using b pos by (simp only: pos_divide_le_eq)
  also have "\<dots> \<le> exp b"
    using b by (intro exp_lower)
  finally have "ln ?T \<le> ln (exp b)"
    using T_pos by (simp only: ln_le_cancel_iff exp_gt_zero)
  then show "ln ?T \<le> b" by (simp only: ln_exp)
qed

text \<open>Two rational bounds of \<open>pi\<close>, from \<open>sin (pi / 6) = 1 / 2\<close>.\<close>

lemma sin_sixth_below:
  "sin_poly (4272943 / 8160720) + (4272943 / 8160720)^17 / 355687428096000 < 1 / 2"
  unfolding sin_poly_def by (simp add: power_divide)

lemma sin_sixth_above:
  "1 / 2 < sin_poly (5419351 / 10350198) - (5419351 / 10350198)^17 / 355687428096000"
  unfolding sin_poly_def by (simp add: power_divide)

lemma pi_lower: "4272943 / 1360120 < pi"
proof -
  have "sin (4272943 / 8160720) < sin (pi / 6)"
    using sin_bounds(2)[of "4272943 / 8160720"] sin_sixth_below by (simp add: sin_30)
  moreover have "(4272943 / 8160720 :: real) \<le> pi / 2" using pi_ge_two by simp
  ultimately have "4272943 / 8160720 < pi / 6"
    using sin_mono_less_eq[of "4272943 / 8160720" "pi / 6"] by simp
  then show ?thesis by simp
qed

lemma pi_upper: "pi < 5419351 / 1725033"
proof -
  have "sin (pi / 6) < sin (5419351 / 10350198)"
    using sin_bounds(1)[of "5419351 / 10350198"] sin_sixth_above by (simp add: sin_30)
  moreover have "(5419351 / 10350198 :: real) \<le> pi / 2" using pi_ge_two by simp
  ultimately have "pi / 6 < 5419351 / 10350198"
    using sin_mono_less_eq[of "pi / 6" "5419351 / 10350198"] by simp
  then show ?thesis by simp
qed

text \<open>The latitude 50.7742 of the reference point.\<close>

lemma phi_bounds:
  "12755345 / 14393677 \<le> radians 50.7742" "radians 50.7742 \<le> 2263903 / 2554685"
  using pi_lower pi_upper by (simp_all add: radians_def)

lemma sin_lo_num:
  "7315149 / 9443047
   \<le> sin_poly (12755345 / 14393677) - (12755345 / 14393677)^17 / 355687428096000"
  unfolding sin_poly_def by (simp add: power_divide)

lemma sin_hi_num:
  "sin_poly (2263903 / 2554685) + (2263903 / 2554685)^17 / 355687428096000
   \<le> 3824119 / 4936514"
  unfolding sin_poly_def by (simp add: power_divide)

lemma cos_lo_num:
  "2683359 / 4243282
   \<le> cos_poly (2263903 / 2554685) - (2263903 / 2554685)^16 / 20922789888000"
  unfolding cos_poly_def by (simp add: power_divide)

lemma cos_hi_num:
  "cos_poly (12755345 / 14393677) + (12755345 / 14393677)^16 / 20922789888000
   \<le> 84618985 / 133810726"
  unfolding cos_poly_def by (simp add: power_divide)

lemma exp_lo_num:
  "exp_poly (39959127 / 38724722) * (84618985 / 133810726)
   \<le> (1 + 7315149 / 9443047) * (1 - (39959127 / 38724722)^17 / 355687428096000)"
  unfolding exp_poly_def by (simp add: power_divide)

lemma exp_hi_num:
  "1 + 3824119 / 4936514 \<le> exp_poly (16529461 / 16018838) * (2683359 / 4243282)"
  unfolding exp_poly_def by (simp add: power_divide)

lemma mercator_ln_bounds:
  "39959127 / 38724722 \<le> ln (tan (radians 50.7742) + 1 / cos (radians 50.7742))"
  "ln (tan (radians 50.7742) + 1 / cos (radians 50.7742)) \<le> 16529461 / 16018838"
proof -
  have h: "(2263903 / 2554685 :: real) \<le> pi / 2" using pi_ge_two by simp
  have r: "(39959127 / 38724722 :: real)^17 / 355687428096000 < 1"
    by (simp add: power_divide)
  show "39959127 / 38724722 \<le> ln (tan (radians 50.7742) + 1 / cos (radians 50.7742))"
    by (rule mercator_ln_interval(1)[OF phi_bounds _ h sin_lo_num sin_hi_num cos_lo_num
          cos_hi_num _ _ _ r exp_lo_num _ exp_hi_num]) simp_all
  show "ln (tan (radians 50.7742) + 1 / cos (radians 50.7742)) \<le> 16529461 / 16018838"
    by (rule mercator_ln_interval(2)[OF phi_bounds _ h sin_lo_num sin_hi_num cos_lo_num
          cos_hi_num _ _ _ r exp_lo_num _ exp_hi_num]) simp_all
qed

lemma mercator_q_bounds:
  "(39959127 / 38724722) / (5419351 / 1725033)
     \<le> ln (tan (radians 50.7742) + 1 / cos (radians 50.7742)) / pi"
  "ln (tan (radians 50.7742) + 1 / cos (radians 50.7742)) / pi
     \<le> (16529461 / 16018838) / (4272943 / 1360120)"
  using mercator_ln_bounds pi_lower pi_upper by (intro frac_le; simp)+

lemma scaled_interval:
  fixes q lo hi k y e :: real
  assumes "lo \<le> q" and "q \<le> hi" and "0 \<le> k"
    and "y - e \<le> k * (1 - hi)" and "k * (1 - lo) \<le> y + e"
  shows "\<bar>k * (1 - q) - y\<bar> \<le> e"
proof -
  have "k * (1 - hi) \<le> k * (1 - q)" "k * (1 - q) \<le> k * (1 - lo)"
    using assms(1-3) by (intro mult_left_mono; simp)+
  with assms(4,5) show ?thesis by linarith
qed

lemma projection_values_tight:
  "\<bar>fst (deg2xy 50.7742 6.0745 9) - 264.639288888888\<bar> \<le> 1 / 10 ^ 9"
  "\<bar>snd (deg2xy 50.7742 6.0745 9) - 171.915145811798\<bar> \<le> 1 / 10 ^ 9"
  "\<bar>fst (deg2xy 50.7742 6.0745 13) - 4234.228622222222\<bar> \<le> 1 / 10 ^ 9"
  "\<bar>snd (deg2xy 50.7742 6.0745 13) - 2750.642332988770\<bar> \<le> 1 / 10 ^ 9"
proof -
  let ?q = "ln (tan (radians 50.7742) + 1 / cos (radians 50.7742)) / pi"
  show "\<bar>fst (deg2xy 50.7742 6.0745 9) - 264.639288888888\<bar> \<le> 1 / 10 ^ 9"
    by (simp add: deg2xy_def Let_def)
  show "\<bar>fst (deg2xy 50.7742 6.0745 13) - 4234.228622222222\<bar> \<le> 1 / 10 ^ 9"
    by (simp add: deg2xy_def Let_def)
  have y9: "snd (deg2xy 50.7742 6.0745 9) = 256 * (1 - ?q)"
    by (simp add: deg2xy_def Let_def)
  have y13: "snd (deg2xy 50.7742 6.0745 13) = 4096 * (1 - ?q)"
    by (simp add: deg2xy_def Let_def)
  show "\<bar>snd (deg2xy 50.7742 6.0745 9) - 171.915145811798\<bar> \<le> 1 / 10 ^ 9"
    unfolding y9 by (rule scaled_interval[OF mercator_q_bounds]) simp_all
  show "\<bar>snd (deg2xy 50.7742 6.0745 13) - 2750.642332988770\<bar> \<le> 1 / 10 ^ 9"
    unfolding y13 by (rule scaled_interval[OF mercator_q_bounds]) simp_all
qed

text \<open>
  C9: at latitude 50.7742 and longitude 6.0745 the projection gives
  (264.639288888888, 171.915145811798) at zoom 9 and
  (4234.228622222222, 2750.642332988770) at zoom 13, each component within 1e-8. This is
  for the exact value of the formulas, which is within 1e-9 of the four numbers
  (\<open>projection_values_tight\<close>); the rounding of float64 arithmetic is not modelled.
\<close>

theorem projection_reference_values:
  "\<bar>fst (deg2xy 50.7742 6.0745 9) - 264.639288888888\<bar> \<le> 1 / 10 ^ 8
   \<and> \<bar>snd (deg2xy 50.7742 6.0745 9) - 171.915145811798\<bar> \<le> 1 / 10 ^ 8
   \<and> \<bar>fst (deg2xy 50.7742 6.0745 13) - 4234.228622222222\<bar> \<le> 1 / 10 ^ 8
   \<and> \<bar>snd (deg2xy 50.7742 6.0745 13) - 2750.642332988770\<bar> \<le> 1 / 10 ^ 8"
proof -
  have "(1 / 10 ^ 9 :: real) \<le> 1 / 10 ^ 8" by simp
  then show ?thesis using projection_values_tight order_trans by blast
qed

text \<open>
  A trackpoint north of the square map: latitude 89, longitude 0, at zoom 0. Its
  projected \<open>y\<close> lies between -1 and 0, so \<open>int()\<close> gives the tile row 0 and the
  pixel row is negative.
\<close>

lemma np_round_unique:
  assumes "of_int k - 1 / 2 < v" and "v < of_int k + 1 / 2"
  shows "np_round v = k"
proof -
  have "\<lfloor>v\<rfloor> = k \<or> \<lfloor>v\<rfloor> = k - 1" using assms by linarith
  then show ?thesis
  proof
    assume f: "\<lfloor>v\<rfloor> = k"
    then have "v - of_int k < 1 / 2" using assms by linarith
    with f show ?thesis by (simp add: np_round_def Let_def)
  next
    assume f: "\<lfloor>v\<rfloor> = k - 1"
    then have "v - of_int (k - 1) > 1 / 2" using assms by simp
    with f show ?thesis by (simp add: np_round_def Let_def)
  qed
qed

lemma north_bounds: "233 / 150 \<le> radians 89" "radians 89 \<le> 626 / 403"
  using pi_lower pi_upper by (simp_all add: radians_def)

lemma north_sin_lo:
  "4950 / 4951 \<le> sin_poly (233 / 150) - (233 / 150)^17 / 355687428096000"
  unfolding sin_poly_def by (simp add: power_divide)

lemma north_sin_hi:
  "sin_poly (626 / 403) + (626 / 403)^17 / 355687428096000 \<le> 6570 / 6571"
  unfolding sin_poly_def by (simp add: power_divide)

lemma north_cos_lo:
  "3 / 172 \<le> cos_poly (626 / 403) - (626 / 403)^16 / 20922789888000"
  unfolding cos_poly_def by (simp add: power_divide)

lemma north_cos_hi:
  "cos_poly (233 / 150) + (233 / 150)^16 / 20922789888000 \<le> 4 / 229"
  unfolding cos_poly_def by (simp add: power_divide)

lemma north_exp_lo:
  "exp_poly (473 / 100) * (4 / 229)
   \<le> (1 + 4950 / 4951) * (1 - (473 / 100)^17 / 355687428096000)"
  unfolding exp_poly_def by (simp add: power_divide)

lemma north_exp_hi: "1 + 6570 / 6571 \<le> exp_poly (949 / 200) * (3 / 172)"
  unfolding exp_poly_def by (simp add: power_divide)

lemma north_ln_bounds:
  "473 / 100 \<le> ln (tan (radians 89) + 1 / cos (radians 89))"
  "ln (tan (radians 89) + 1 / cos (radians 89)) \<le> 949 / 200"
proof -
  have h: "(626 / 403 :: real) \<le> pi / 2" using pi_lower by simp
  have r: "(473 / 100 :: real)^17 / 355687428096000 < 1"
    by (simp add: power_divide)
  show "473 / 100 \<le> ln (tan (radians 89) + 1 / cos (radians 89))"
    by (rule mercator_ln_interval(1)[OF north_bounds _ h north_sin_lo north_sin_hi
          north_cos_lo north_cos_hi _ _ _ r north_exp_lo _ north_exp_hi]) simp_all
  show "ln (tan (radians 89) + 1 / cos (radians 89)) \<le> 949 / 200"
    by (rule mercator_ln_interval(2)[OF north_bounds _ h north_sin_lo north_sin_hi
          north_cos_lo north_cos_hi _ _ _ r north_exp_lo _ north_exp_hi]) simp_all
qed

lemma north_y_bounds:
  "- 131 / 512 < snd (deg2xy 89 0 0)" "snd (deg2xy 89 0 0) < - 129 / 512"
proof -
  let ?l = "ln (tan (radians 89) + 1 / cos (radians 89))"
  have y: "snd (deg2xy 89 0 0) = (1 - ?l / pi) / 2"
    by (simp add: deg2xy_def Let_def)
  have "?l / pi \<le> (949 / 200) / (4272943 / 1360120)"
    using north_ln_bounds pi_lower by (intro frac_le; simp)
  then show "- 131 / 512 < snd (deg2xy 89 0 0)" unfolding y by simp
  have "(473 / 100) / (5419351 / 1725033) \<le> ?l / pi"
    using north_ln_bounds pi_upper by (intro frac_le; simp)
  then show "snd (deg2xy 89 0 0) < - 129 / 512" unfolding y by simp
qed

lemma north_x: "fst (deg2xy 89 0 0) = 1 / 2"
  by (simp add: deg2xy_def Let_def)

lemma north_tile: "deg2tile_coord 89 0 0 = (0, 0)"
proof -
  have "\<lceil>snd (deg2xy 89 0 0)\<rceil> = 0"
    using north_y_bounds by (intro ceiling_unique) simp_all
  moreover have "\<not> 0 \<le> snd (deg2xy 89 0 0)" using north_y_bounds by simp
  ultimately show ?thesis
    by (simp add: deg2tile_coord_def py_int_def split_beta north_x)
qed

lemma pixel_of_north: "pixel_of (89, 0) 0 0 0 = (- 65, 128)"
proof -
  have "of_int (- 65) - 1 / 2 < snd (deg2xy 89 0 0) * 256"
    and "snd (deg2xy 89 0 0) * 256 < of_int (- 65) + 1 / 2"
    using north_y_bounds by simp_all
  then have "np_round (snd (deg2xy 89 0 0) * 256) = - 65"
    by (rule np_round_unique)
  moreover have "np_round (128 :: real) = 128" by (intro np_round_unique) simp_all
  ultimately show ?thesis
    by (simp add: pixel_of_def split_beta north_x OSM_TILE_SIZE_def)
qed

section \<open>Compositing\<close>

lemma blend_black: "blend (0, 0, 0) b = b"
  by (simp add: blend_def split: prod.splits)

lemma blend_white: "blend (1, 1, 1) b = (1, 1, 1)"
  by (simp add: blend_def split: prod.splits)

lemma blend_row_black: "map2 blend (map (\<lambda>p. (0, 0, 0)) row) row = row"
  by (simp add: zip_map1 blend_black map_idI zip_same_conv_map)

lemma blend_row_white: "map2 blend (map (\<lambda>p. (1, 1, 1)) row) row = map (\<lambda>p. (1, 1, 1)) row"
  by (simp add: zip_map1 blend_white zip_same_conv_map)

text \<open>
  C5: with the overlay colour (0,0,0) the rule \<open>(1 - color) * base + color\<close> returns
  the base, and with the overlay colour (1,1,1) it returns (1,1,1) whatever the base is;
  so for one pixel, and so for the whole image when the colour layer has the
  supertile's shape.
\<close>

theorem compositing_identities:
  "blend (0, 0, 0) base = base
   \<and> blend (1, 1, 1) base = (1, 1, 1)
   \<and> overlay (map (map (\<lambda>p. (0, 0, 0))) supertile) supertile = supertile
   \<and> overlay (map (map (\<lambda>p. (1, 1, 1))) supertile) supertile
       = map (map (\<lambda>p. (1, 1, 1))) supertile"
proof -
  have "overlay (map (map (\<lambda>p. (0, 0, 0))) supertile) supertile = supertile"
    by (induction supertile) (simp_all add: overlay_def blend_row_black)
  moreover have "overlay (map (map (\<lambda>p. (1, 1, 1))) supertile) supertile
       = map (map (\<lambda>p. (1, 1, 1))) supertile"
    by (induction supertile) (simp_all add: overlay_def blend_row_white)
  ultimately show ?thesis using blend_black blend_white by simp
qed

section \<open>Normalization\<close>

lemma fold_min_le: "u \<in> set (v # ws) \<Longrightarrow> fold min ws (v::real) \<le> u"
proof -
  assume u: "u \<in> set (v # ws)"
  have "fold min ws v = Min (set (v # ws))" by (rule Min.set_eq_fold[symmetric])
  also have "\<dots> \<le> u" using u by (intro Min_le) auto
  finally show ?thesis .
qed

lemma fold_max_ge: "u \<in> set (v # ws) \<Longrightarrow> u \<le> fold max ws (v::real)"
proof -
  assume u: "u \<in> set (v # ws)"
  have "u \<le> Max (set (v # ws))" using u by (intro Max_ge) auto
  also have "\<dots> = fold max ws v" by (rule Max.set_eq_fold)
  finally show ?thesis .
qed

lemma np_min_le: "np_min vs = Inr lo \<Longrightarrow> u \<in> set vs \<Longrightarrow> lo \<le> u"
  using fold_min_le by (cases vs) auto

lemma np_max_ge: "np_max vs = Inr hi \<Longrightarrow> u \<in> set vs \<Longrightarrow> u \<le> hi"
  using fold_max_ge by (cases vs) auto

lemma np_min_nonempty: "vs \<noteq> [] \<Longrightarrow> \<exists>lo. np_min vs = Inr lo"
  by (cases vs) simp_all

lemma np_max_nonempty: "vs \<noteq> [] \<Longrightarrow> \<exists>hi. np_max vs = Inr hi"
  by (cases vs) simp_all

text \<open>
  C1 asks that a grid whose maximum equals its minimum be normalized to the all-zero
  grid. The code has no such case: it divides, every cell becomes 0/0, and the result
  is the all-\<open>nan\<close> grid.
\<close>

theorem normalize_degenerate_is_nan:
  assumes "np_min (concat data) = Inr lo" and "np_max (concat data) = Inr hi" and "hi = lo"
  shows "normalize_data data = Inr (map (map (\<lambda>v. NaN)) data)"
proof -
  have "\<And>row v. row \<in> set data \<Longrightarrow> v \<in> set row \<Longrightarrow> np_div (v - lo) (hi - lo) = NaN"
  proof -
    fix row v assume "row \<in> set data" "v \<in> set row"
    then have "v \<in> set (concat data)" by auto
    with assms np_min_le np_max_ge have "lo \<le> v" "v \<le> lo" by blast+
    then show "np_div (v - lo) (hi - lo) = NaN" using assms(3) by (simp add: np_div_def)
  qed
  then have "map (map (\<lambda>v. np_div (v - lo) (hi - lo))) data = map (map (\<lambda>v. NaN)) data"
    by (intro map_cong refl) auto
  then show ?thesis using assms by (simp add: normalize_data_def)
qed

theorem normalize_degenerate_is_nan_witness:
  "np_min (concat [[0, 0], [0, 0]]) = Inr 0 \<and> np_max (concat [[0, 0], [0, 0]]) = Inr 0
   \<and> normalize_data [[0, 0], [0, 0]] = Inr [[NaN, NaN], [NaN, NaN]]
   \<and> [[NaN, NaN], [NaN, NaN]] \<noteq> [[Fin 0, Fin 0], [Fin 0, Fin 0]]"
  using normalize_degenerate_is_nan[of "[[0, 0], [0, 0]]" 0 0] by simp

section \<open>Accumulation and clamping\<close>

lemma np_zeros_shape:
  "length (np_zeros rows cols z) = rows \<and> (\<forall>r<rows. length (np_zeros rows cols z ! r) = cols)"
  by (simp add: np_zeros_def)

lemma np_zeros_cell: "r < rows \<Longrightarrow> c < cols \<Longrightarrow> np_zeros rows cols z ! r ! c = z"
  by (simp add: np_zeros_def)

lemma add_window_length: "length (add_window data i j w) = length data"
  by (simp add: add_window_def split: prod.splits)

lemma add_window_row_length:
  "r < length data \<Longrightarrow> length (add_window data i j w ! r) = length (data ! r)"
  by (simp add: add_window_def split: prod.splits)

lemma add_window_cell:
  "r < length data \<Longrightarrow> c < length (data ! r) \<Longrightarrow>
   add_window data i j w ! r ! c
   = (if (r, c) \<in> window_cells data i j w then data ! r ! c + 1 else data ! r ! c)"
  by (simp add: add_window_def window_cells_def split: prod.splits)

lemma slice_within: "fst (slice_bounds a b n) \<le> n \<and> snd (slice_bounds a b n) \<le> n"
  by (auto simp: slice_bounds_def slice_index_def)

lemma slice_empty:
  assumes "0 \<le> w" and "- w - 1 \<le> i" and "i < w" and "2 * w + 1 \<le> int n"
  shows "snd (slice_bounds (i - w) (i + w + 1) n) \<le> fst (slice_bounds (i - w) (i + w + 1) n)"
  using assms by (auto simp: slice_bounds_def slice_index_def)

lemma add_window_unchanged:
  assumes "window_cells data i j w = {}"
  shows "add_window data i j w = data"
proof (rule nth_equalityI)
  show "length (add_window data i j w) = length data" by (rule add_window_length)
next
  fix r assume "r < length (add_window data i j w)"
  then have r: "r < length data" by (simp add: add_window_length)
  show "add_window data i j w ! r = data ! r"
  proof (rule nth_equalityI)
    show "length (add_window data i j w ! r) = length (data ! r)"
      using r by (rule add_window_row_length)
  next
    fix c assume "c < length (add_window data i j w ! r)"
    then have c: "c < length (data ! r)" using r by (simp add: add_window_row_length)
    show "add_window data i j w ! r ! c = data ! r ! c"
      using add_window_cell[OF r c] assms by simp
  qed
qed

lemma accumulated_single:
  "accumulated [p] x_tile_min y_tile_min zoom w rows cols
   = add_window (np_zeros rows cols 0) (fst (pixel_of p x_tile_min y_tile_min zoom))
       (snd (pixel_of p x_tile_min y_tile_min zoom)) w"
  by (simp add: accumulated_def accumulate_def split: prod.splits)


lemma pixel_of_west: "pixel_of (0, - 185) 0 0 0 = (128, - 4)"
proof -
  have "\<lfloor>- (32 / 9) :: real\<rfloor> = - 4" by linarith
  then show ?thesis
    by (simp add: pixel_of_def deg2xy_equator np_round_def OSM_TILE_SIZE_def Let_def)
qed


lemma accumulated_west_cell: "accumulated [(0, - 185)] 0 0 0 1 256 256 ! 128 ! 252 = 1"
proof -
  have s: "length (np_zeros 256 256 (0::real)) = 256"
    "length (np_zeros 256 256 (0::real) ! 128) = 256"
    by (simp_all add: np_zeros_shape)
  have w: "(128, 252) \<in> window_cells (np_zeros 256 256 0) 128 (- 4) 1"
    by (simp add: window_cells_def s slice_bounds_def slice_index_def)
  show ?thesis
    using add_window_cell[of 128 "np_zeros 256 256 0" 252 128 "- 4" 1] w
    by (simp add: accumulated_single pixel_of_west s np_zeros_cell)
qed

lemma accumulated_north_cell: "accumulated [(89, 0)] 0 0 0 1 256 256 ! 191 ! 128 = 1"
proof -
  have s: "length (np_zeros 256 256 (0::real)) = 256"
    "length (np_zeros 256 256 (0::real) ! 191) = 256"
    by (simp_all add: np_zeros_shape)
  have w: "(191, 128) \<in> window_cells (np_zeros 256 256 0) (- 65) 128 1"
    by (simp add: window_cells_def s slice_bounds_def slice_index_def)
  show ?thesis
    using add_window_cell[of 191 "np_zeros 256 256 0" 128 "- 65" 128 1] w
    by (simp add: accumulated_single pixel_of_north s np_zeros_cell)
qed

text \<open>
  C10, as stated, is false: an index smaller than the half-window is not enough for an
  empty slice. With an index below \<open>- w_pixels - 1\<close> both bounds of the slice are
  negative and the window lands at the opposite edge. On an 8 by 8 grid with half-window
  1 the row index -5 selects the rows 2 to 4. In the program, the single trackpoint at
  latitude 89 and longitude 0 at zoom 0 lies in the tile (0, 0), its pixel row in the 256
  by 256 grid is -65, and it is counted in the rows 190 to 192; the trackpoint at
  latitude 0 and longitude -185 has the pixel column -4 and is counted in column 252.
\<close>

theorem window_negative_index_wraps:
  "(- 5 :: int) < 1 \<and> 2 * 1 + 1 \<le> int (length (np_zeros 8 8 (0::real)))
   \<and> (3, 4) \<in> window_cells (np_zeros 8 8 0) (- 5) 4 1
   \<and> add_window (np_zeros 8 8 0) (- 5) 4 1 ! 3 ! 4 = 1
   \<and> add_window (np_zeros 8 8 0) (- 5) 4 1 \<noteq> np_zeros 8 8 0
   \<and> deg2tile_coord 89 0 0 = (0, 0)
   \<and> pixel_of (89, 0) 0 0 0 = (- 65, 128)
   \<and> accumulated [(89, 0)] 0 0 0 1 256 256 ! 191 ! 128 = 1
   \<and> pixel_of (0, - 185) 0 0 0 = (128, - 4)
   \<and> accumulated [(0, - 185)] 0 0 0 1 256 256 ! 128 ! 252 = 1"
proof -
  have s: "length (np_zeros 8 8 (0::real)) = 8" "length (np_zeros 8 8 (0::real) ! 3) = 8"
    by (simp_all add: np_zeros_shape)
  have w: "(3, 4) \<in> window_cells (np_zeros 8 8 0) (- 5) 4 1"
    by (simp add: window_cells_def s slice_bounds_def slice_index_def)
  have c: "add_window (np_zeros 8 8 0) (- 5) 4 1 ! 3 ! 4 = 1"
    using add_window_cell[of 3 "np_zeros 8 8 0" 4 "- 5" 4 1] w by (simp add: s np_zeros_cell)
  have "np_zeros 8 8 (0::real) ! 3 ! 4 = 0" by (simp add: np_zeros_cell)
  with c have "add_window (np_zeros 8 8 0) (- 5) 4 1 \<noteq> np_zeros 8 8 0" by auto
  with w c s pixel_of_west accumulated_west_cell north_tile pixel_of_north
    accumulated_north_cell show ?thesis by simp
qed

text \<open>
  C10, amended: the accumulation step never reads or writes out of bounds (the bounds of
  a slice are clipped to the array), and for a half-window \<open>w_pixels \<ge> 0\<close> and every
  trackpoint whose row index \<open>i\<close> satisfies \<open>- w_pixels - 1 \<le> i < w_pixels\<close> on a grid
  of at least \<open>2 * w_pixels + 1\<close> rows, or whose column index \<open>j\<close> satisfies
  \<open>- w_pixels - 1 \<le> j < w_pixels\<close> on a grid of at least \<open>2 * w_pixels + 1\<close> columns,
  the slice is empty and the point adds nothing to the grid.
\<close>

theorem window_near_top_left_is_empty:
  assumes "0 \<le> w"
    and "(- w - 1 \<le> i \<and> i < w \<and> 2 * w + 1 \<le> int (length data))
         \<or> (- w - 1 \<le> j \<and> j < w \<and> (\<forall>row\<in>set data. 2 * w + 1 \<le> int (length row)))"
  shows "window_cells data i j w = {} \<and> add_window data i j w = data
         \<and> fst (slice_bounds (i - w) (i + w + 1) n) \<le> n
         \<and> snd (slice_bounds (i - w) (i + w + 1) n) \<le> n"
proof -
  have "window_cells data i j w = {}"
  proof -
    have "\<not> (r, c) \<in> window_cells data i j w" for r c
    proof
      assume rc: "(r, c) \<in> window_cells data i j w"
      then have r: "r < length data" by (simp add: window_cells_def)
      from assms(2) show False
      proof
        assume "- w - 1 \<le> i \<and> i < w \<and> 2 * w + 1 \<le> int (length data)"
        with slice_empty[OF assms(1), of i "length data"] rc show False
          by (simp add: window_cells_def)
      next
        assume a: "- w - 1 \<le> j \<and> j < w \<and> (\<forall>row\<in>set data. 2 * w + 1 \<le> int (length row))"
        with r have "2 * w + 1 \<le> int (length (data ! r))" by simp
        with slice_empty[OF assms(1), of j "length (data ! r)"] a rc show False
          by (simp add: window_cells_def)
      qed
    qed
    then show ?thesis by auto
  qed
  then show ?thesis using add_window_unchanged slice_within by simp
qed

theorem window_near_top_left_is_empty_witness:
  "(0::int) \<le> 1 \<and> - 1 - 1 \<le> (0::int) \<and> (0::int) < 1
   \<and> 2 * 1 + 1 \<le> int (length (np_zeros 4 4 (0::real)))
   \<and> window_cells (np_zeros 4 4 0) 0 2 1 = {}
   \<and> add_window (np_zeros 4 4 0) 0 2 1 = np_zeros 4 4 0"
  using window_near_top_left_is_empty[of 1 0 "np_zeros 4 4 0" 2] by (simp add: np_zeros_shape)

lemma max_accumulation_cases:
  "max_accumulation pts zoom nr = NaN \<or> (\<exists>mv. max_accumulation pts zoom nr = Fin mv)"
  by (simp add: max_accumulation_def pixel_res_def np_mean_def)




section \<open>The render\<close>

lemma shaped_nth: "shaped rows cols arr \<Longrightarrow> r < rows \<Longrightarrow> length (arr ! r) = cols"
  by (simp add: shaped_def list_all_length)

lemma shaped_np_zeros: "shaped rows cols (np_zeros rows cols z)"
  by (simp add: shaped_def np_zeros_def list_all_length)

lemma shaped_add_window: "shaped rows cols data \<Longrightarrow> shaped rows cols (add_window data i j w)"
  by (simp add: shaped_def add_window_def list_all_length split: prod.splits)

lemma shaped_accumulate:
  "shaped rows cols data \<Longrightarrow> shaped rows cols (accumulate pts x_tile_min y_tile_min zoom w data)"
  unfolding accumulate_def
  by (induction pts arbitrary: data) (simp_all add: shaped_add_window split: prod.splits)

lemma shaped_threshold: "shaped rows cols data \<Longrightarrow> shaped rows cols (threshold m data)"
  by (cases m) (simp_all add: threshold_def shaped_def list_all_length)

lemma shaped_clamped:
  "shaped rows cols (clamped pts nr_activities x_tile_min y_tile_min zoom sigma_pixels rows cols)"
  by (simp add: clamped_def accumulated_def shaped_threshold shaped_accumulate shaped_np_zeros)

lemma box_filter_total:
  assumes "shaped rows cols data" and "0 < rows" and "0 < cols"
  shows "\<exists>out. box_filter data w_box = Inr out \<and> shaped rows cols out"
proof -
  have "data \<noteq> []" using assms by (auto simp: shaped_def)
  moreover have "length (hd data) = cols"
    using assms shaped_nth[OF assms(1), of 0] \<open>data \<noteq> []\<close> by (simp add: hd_conv_nth)
  ultimately show ?thesis using assms
    by (auto simp: box_filter_def Let_def shaped_def list_all_length)
qed

lemma normalize_data_total:
  assumes "shaped rows cols data" and "0 < rows" and "0 < cols"
  shows "\<exists>out. normalize_data data = Inr out"
proof -
  have "data \<noteq> []" using assms by (auto simp: shaped_def)
  then obtain row rest where d: "data = row # rest" by (cases data) auto
  then have "length row = cols" using assms(1) by (simp add: shaped_def)
  then have "concat data \<noteq> []" using d assms(3) by auto
  then obtain lo hi where "np_min (concat data) = Inr lo" "np_max (concat data) = Inr hi"
    using np_min_nonempty np_max_nonempty by blast
  then show ?thesis by (simp add: normalize_data_def)
qed

lemma density_total:
  assumes "0 < rows" and "0 < cols"
  shows "\<exists>out. density pts nr_activities x_tile_min y_tile_min zoom sigma_pixels rows cols = Inr out"
proof -
  obtain d where
    "box_filter (clamped pts nr_activities x_tile_min y_tile_min zoom sigma_pixels rows cols)
       (w_filter sigma_pixels) = Inr d" and "shaped rows cols d"
    using box_filter_total[OF shaped_clamped assms] by blast
  then show ?thesis using normalize_data_total[OF _ assms] by (simp add: density_def)
qed

text \<open>
  Without trackpoints the grid stays all-zero up to the normalization, which turns it
  into the all-\<open>nan\<close> grid.
\<close>

lemma box_filter_zeros:
  assumes "0 < rows" and "0 < cols"
  shows "box_filter (np_zeros rows cols 0) w_box = Inr (np_zeros rows cols 0)"
proof -
  let ?z = "np_zeros rows cols (0::real)"
  have ne: "?z \<noteq> []" "hd ?z \<noteq> []" "length ?z = rows" "length (hd ?z) = cols"
    using assms by (auto simp: np_zeros_def)
  have cell: "?z ! ((i + rows - a) mod rows) ! ((j + cols - b) mod cols) = 0" for i j a b
    using assms by (simp add: np_zeros_cell)
  have inner: "(\<Sum>a\<leftarrow>[0..<min (nat w_box) rows]. \<Sum>b\<leftarrow>[0..<min (nat w_box) cols].
                 ?z ! ((i + rows - a) mod rows) ! ((j + cols - b) mod cols)) = 0" for i j
    by (simp add: cell)
  have "box_filter ?z w_box
        = Inr (map (\<lambda>i. map (\<lambda>j. (0::real)) [0..<cols]) [0..<rows])"
    using ne by (simp add: box_filter_def Let_def inner)
  also have "map (\<lambda>i. map (\<lambda>j. (0::real)) [0..<cols]) [0..<rows] = ?z"
    by (simp add: np_zeros_def map_replicate_const)
  finally show ?thesis .
qed

lemma clamped_no_points:
  "clamped [] nr_activities x_tile_min y_tile_min zoom sigma_pixels rows cols
   = np_zeros rows cols 0"
  by (simp add: clamped_def accumulated_def accumulate_def max_accumulation_def pixel_res_def
      np_mean_def threshold_def)

lemma normalize_zeros:
  assumes "0 < rows" and "0 < cols"
  shows "normalize_data (np_zeros rows cols 0) = Inr (np_zeros rows cols NaN)"
proof -
  let ?z = "np_zeros rows cols (0::real)"
  have c: "concat ?z = replicate (rows * cols) 0"
    by (induction rows) (simp_all add: np_zeros_def replicate_add)
  obtain n where n: "rows * cols = Suc n" using assms by (cases "rows * cols") auto
  have f: "(min (0::real) ^^ n) 0 = 0" "(max (0::real) ^^ n) 0 = 0"
    by (induction n) simp_all
  have "np_min (concat ?z) = Inr 0" "np_max (concat ?z) = Inr 0"
    by (simp_all add: c n f)
  then show ?thesis
    by (simp add: normalize_data_def np_div_def np_zeros_def)
qed

lemma density_no_points:
  assumes "0 < rows" and "0 < cols"
  shows "density [] nr_activities x_tile_min y_tile_min zoom sigma_pixels rows cols
         = Inr (np_zeros rows cols NaN)"
  by (simp add: density_def clamped_no_points box_filter_zeros[OF assms]
      normalize_zeros[OF assms])

text \<open>
  C3 asks that the engine, given no point, return a defined image. Without
  \<open>equal\<close>, which is the default, a point sequence that is empty after the crop makes
  \<open>create_heatmap\<close> raise \<open>ValueError\<close>: the extent of the data is taken with
  \<open>min()\<close> and \<open>max()\<close> of an array without elements. Nothing is printed, fetched or
  rendered before that.
\<close>

theorem empty_crop_raises:
  assumes "crop lat_lon_data lat_bound_min lat_bound_max lon_bound_min lon_bound_max = []"
  shows "create_heatmap srv cmap lat_lon_data nr_activities lat_bound_min lat_bound_max
           lon_bound_min lon_bound_max heatmap_zoom sigma_pixels False url w
         = (Inl ValueError, w)"
  using assms by (simp add: create_heatmap_def tile_rectangle_def)

theorem empty_crop_raises_witness:
  "crop [] (- 90) 90 (- 180) 180 = []
   \<and> create_heatmap offline flat_cmap [] 0 (- 90) 90 (- 180) 180 10 1 False
         ''https://maps.wikimedia.org/osm-intl'' no_tiles = (Inl ValueError, no_tiles)
   \<and> crop [(50.7742, 6.0745)] 0 1 0 1 = []
   \<and> create_heatmap offline flat_cmap [(50.7742, 6.0745)] 1 0 1 0 1 10 1 False
         ''https://maps.wikimedia.org/osm-intl'' no_tiles = (Inl ValueError, no_tiles)"
proof -
  have a: "crop [] (- 90) 90 (- 180) 180 = []" by (simp add: crop_def)
  have b: "crop [(50.7742, 6.0745)] 0 1 0 1 = []" by (simp add: crop_def)
  show ?thesis using empty_crop_raises[OF a] empty_crop_raises[OF b] a b by simp
qed

lemma equator_rectangle:
  "tile_rectangle False (crop [(0, - 90), (0, 90)] (- 90) 90 (- 180) 180)
     (- 90) 90 (- 180) 180 10
   = Inr (256, 768, 512, 512)"
  by (simp add: tile_rectangle_def crop_def deg2tile_coord_def deg2xy_equator py_int_def)

lemma tile_positions_first:
  "x_tile_min \<le> x_tile_max \<Longrightarrow> y_tile_min \<le> y_tile_max \<Longrightarrow>
   \<exists>rest. tile_positions x_tile_min x_tile_max y_tile_min y_tile_max
           = (x_tile_min, y_tile_min) # rest"
  by (simp add: tile_positions_def py_range_def upto_rec1[of x_tile_min] upto_rec1[of y_tile_min])

lemma tile_positions_set:
  "set (tile_positions x_tile_min x_tile_max y_tile_min y_tile_max)
   = {x_tile_min..x_tile_max} \<times> {y_tile_min..y_tile_max}"
  by (auto simp: tile_positions_def py_range_def)

lemma supertile_size_nonneg:
  assumes "x_tile_min \<le> x_tile_max" and "y_tile_min \<le> y_tile_max"
  shows "\<not> (y_tile_max - y_tile_min + 1) * int OSM_TILE_SIZE < 0"
    and "\<not> (x_tile_max - x_tile_min + 1) * int OSM_TILE_SIZE < 0"
  using assms by (simp_all add: OSM_TILE_SIZE_def)

lemma create_supertile_missing_first:
  assumes "x_tile_min \<le> x_tile_max" and "y_tile_min \<le> y_tile_max"
    and "tile_files w (zoom, x_tile_min, y_tile_min) = None"
  shows "create_supertile w x_tile_min x_tile_max y_tile_min y_tile_max zoom
         = Inl FileNotFoundError"
proof -
  obtain rest where "tile_positions x_tile_min x_tile_max y_tile_min y_tile_max
                     = (x_tile_min, y_tile_min) # rest"
    using tile_positions_first[OF assms(1,2)] by blast
  then show ?thesis using assms(3) supertile_size_nonneg[OF assms(1,2)]
    by (simp add: create_supertile_def supertile_size_def)
qed

lemma map_err_broadcast_id:
  "list_all (\<lambda>row. length row = n) t \<Longrightarrow> map_err (broadcast_to n) t = Inr t"
  by (induction t) (simp_all add: broadcast_to_def)

lemma tile_block_ok: "tile_ok t \<Longrightarrow> tile_block t = Inr t"
  by (simp add: tile_ok_def shaped_def tile_block_def map_err_broadcast_id broadcast_to_def)

lemma fill_supertile_total:
  assumes "list_all (\<lambda>p. \<exists>t. tile_files w (zoom, fst p, snd p) = Some t \<and> tile_ok t) ps"
  shows "\<exists>out. fill_supertile w zoom x_tile_min y_tile_min ps st = Inr out"
  using assms
proof (induction ps arbitrary: st)
  case Nil
  then show ?case by simp
next
  case (Cons p ps)
  obtain x y where p: "p = (x, y)" by (cases p)
  from Cons.prems p obtain t where t: "tile_files w (zoom, x, y) = Some t" "tile_ok t" by auto
  from Cons.prems
  have "list_all (\<lambda>p. \<exists>t. tile_files w (zoom, fst p, snd p) = Some t \<and> tile_ok t) ps"
    by simp
  from Cons.IH[OF this] show ?case using p t by (simp add: tile_block_ok)
qed

lemma create_supertile_total:
  assumes "x_tile_min \<le> x_tile_max" and "y_tile_min \<le> y_tile_max"
    and "\<forall>x\<in>{x_tile_min..x_tile_max}. \<forall>y\<in>{y_tile_min..y_tile_max}.
           \<exists>t. tile_files w (zoom, x, y) = Some t \<and> tile_ok t"
  shows "\<exists>out. create_supertile w x_tile_min x_tile_max y_tile_min y_tile_max zoom = Inr out"
proof -
  have "list_all (\<lambda>p. \<exists>t. tile_files w (zoom, fst p, snd p) = Some t \<and> tile_ok t)
          (tile_positions x_tile_min x_tile_max y_tile_min y_tile_max)"
    using assms(3) by (auto simp: list_all_iff tile_positions_set)
  from fill_supertile_total[OF this]
  obtain out where "fill_supertile w zoom x_tile_min y_tile_min
       (tile_positions x_tile_min x_tile_max y_tile_min y_tile_max)
       (np_zeros (nat ((y_tile_max - y_tile_min + 1) * int OSM_TILE_SIZE))
                 (nat ((x_tile_max - x_tile_min + 1) * int OSM_TILE_SIZE)) (0, 0, 0)) = Inr out"
    by blast
  then show ?thesis using supertile_size_nonneg[OF assms(1,2)]
    by (simp add: create_supertile_def supertile_size_def)
qed

text \<open>
  Above the maximum tile count \<open>download_tiles_for_area\<close> prints its message and
  returns as it does after a download; \<open>create_heatmap\<close> goes on. With every tile of
  the rectangle on disk it returns an image.
\<close>

lemma render_over_limit_with_cached_tiles:
  assumes rect: "tile_rectangle equal
          (crop lat_lon_data lat_bound_min lat_bound_max lon_bound_min lon_bound_max)
          lat_bound_min lat_bound_max lon_bound_min lon_bound_max heatmap_zoom
        = Inr (x_tile_min, x_tile_max, y_tile_min, y_tile_max)"
    and "x_tile_min \<le> x_tile_max" and "y_tile_min \<le> y_tile_max"
    and over: "(x_tile_max - x_tile_min + 1) * (y_tile_max - y_tile_min + 1) > MAX_TILE_COUNT"
    and cached: "\<forall>x\<in>{x_tile_min..x_tile_max}. \<forall>y\<in>{y_tile_min..y_tile_max}.
           \<exists>t. tile_files w (heatmap_zoom, x, y) = Some t \<and> tile_ok t"
  shows "\<exists>img. create_heatmap srv cmap lat_lon_data nr_activities lat_bound_min lat_bound_max
           lon_bound_min lon_bound_max heatmap_zoom sigma_pixels equal url w
         = (Inr img,
            w\<lparr>stdout := stdout w @ [''ERROR zoom value too high'', ''creating heatmap...'']\<rparr>)"
proof -
  let ?w1 = "w\<lparr>stdout := stdout w @ [''ERROR zoom value too high'']\<rparr>"
  let ?w2 = "w\<lparr>stdout := stdout w @ [''ERROR zoom value too high'', ''creating heatmap...'']\<rparr>"
  have d: "download_tiles_for_area srv x_tile_min x_tile_max y_tile_min y_tile_max
             heatmap_zoom url w = (Inr (), ?w1)"
    using over by (simp add: download_tiles_for_area_def)
  have w2: "?w1\<lparr>stdout := stdout ?w1 @ [''creating heatmap...'']\<rparr> = ?w2" by simp
  have "tile_files ?w2 = tile_files w" by simp
  with cached create_supertile_total[OF assms(2,3), of ?w2 heatmap_zoom]
  obtain st where st:
    "create_supertile ?w2 x_tile_min x_tile_max y_tile_min y_tile_max heatmap_zoom = Inr st"
    by auto
  obtain rows cols where
    rc: "supertile_size x_tile_min x_tile_max y_tile_min y_tile_max = (rows, cols)"
    by (cases "supertile_size x_tile_min x_tile_max y_tile_min y_tile_max")
  then have "0 < nat rows" "0 < nat cols" using assms(2,3)
    by (auto simp: supertile_size_def OSM_TILE_SIZE_def)
  from density_total[OF this]
  obtain dn where dn:
    "density (crop lat_lon_data lat_bound_min lat_bound_max lon_bound_min lon_bound_max)
       nr_activities x_tile_min y_tile_min heatmap_zoom sigma_pixels (nat rows) (nat cols)
     = Inr dn"
    by blast
  show ?thesis
    unfolding create_heatmap_def Let_def rect
    by (simp only: d w2 st rc dn sum.case prod.case) blast
qed

lemma white_tile_ok: "tile_ok white_tile"
  by (simp add: tile_ok_def white_tile_def shaped_np_zeros)

text \<open>
  C2 asks that a tile rectangle above the maximum tile count stop the render with an
  error for the caller. The code prints a line and goes on. Two trackpoints on the
  equator at longitudes -90 and 90, zoom 10, the default bounding box: the rectangle is
  513 tiles wide and one high. No tile is requested in either world. With an empty tile
  cache the render fails in \<open>create_supertile\<close> on the first tile file, after
  ``creating heatmap...''; with the tiles on disk it assembles the supertile and returns
  an image.
\<close>

theorem tile_limit_does_not_stop_render:
  "tile_rectangle False (crop [(0, - 90), (0, 90)] (- 90) 90 (- 180) 180)
     (- 90) 90 (- 180) 180 10 = Inr (256, 768, 512, 512)
   \<and> (768 - 256 + 1) * (512 - 512 + 1) > MAX_TILE_COUNT
   \<and> create_heatmap srv cmap [(0, - 90), (0, 90)] nr_activities (- 90) 90 (- 180) 180 10
        sigma_pixels False url no_tiles
      = (Inl FileNotFoundError,
         no_tiles\<lparr>stdout := [''ERROR zoom value too high'', ''creating heatmap...'']\<rparr>)
   \<and> (\<exists>img. create_heatmap srv cmap [(0, - 90), (0, 90)] nr_activities (- 90) 90 (- 180) 180
          10 sigma_pixels False url cached_tiles
        = (Inr img,
           cached_tiles\<lparr>stdout := [''ERROR zoom value too high'', ''creating heatmap...'']\<rparr>))"
proof -
  let ?w1 = "no_tiles\<lparr>stdout := [''ERROR zoom value too high'']\<rparr>"
  let ?w2 = "no_tiles\<lparr>stdout := [''ERROR zoom value too high'', ''creating heatmap...'']\<rparr>"
  have over: "(768 - 256 + 1) * (512 - 512 + 1) > MAX_TILE_COUNT"
    by (simp add: MAX_TILE_COUNT_def)
  have d: "download_tiles_for_area srv 256 768 512 512 10 url no_tiles = (Inr (), ?w1)"
    by (simp add: download_tiles_for_area_def MAX_TILE_COUNT_def no_tiles_def)
  have w2: "?w1\<lparr>stdout := stdout ?w1 @ [''creating heatmap...'']\<rparr> = ?w2"
    by (simp add: no_tiles_def)
  have s: "create_supertile ?w2 256 768 512 512 10 = Inl FileNotFoundError"
    by (rule create_supertile_missing_first) (simp_all add: no_tiles_def)
  have a: "create_heatmap srv cmap [(0, - 90), (0, 90)] nr_activities (- 90) 90 (- 180) 180 10
        sigma_pixels False url no_tiles = (Inl FileNotFoundError, ?w2)"
    unfolding create_heatmap_def Let_def equator_rectangle
    by (simp only: d w2 s sum.case prod.case)
  have c: "\<forall>x\<in>{256..768}. \<forall>y\<in>{512..512}.
             \<exists>t. tile_files cached_tiles (10, x, y) = Some t \<and> tile_ok t"
    by (simp add: cached_tiles_def white_tile_ok)
  have "stdout cached_tiles = []" by (simp add: cached_tiles_def)
  with render_over_limit_with_cached_tiles[OF equator_rectangle _ _ over c,
      of srv cmap nr_activities sigma_pixels url]
  have b: "\<exists>img. create_heatmap srv cmap [(0, - 90), (0, 90)] nr_activities (- 90) 90 (- 180) 180
          10 sigma_pixels False url cached_tiles
        = (Inr img,
           cached_tiles\<lparr>stdout := [''ERROR zoom value too high'', ''creating heatmap...'']\<rparr>)"
    by simp
  show ?thesis using equator_rectangle over a b by blast
qed

end
